theory Spec2Isabelle
  imports
    Main
    "HOL-Library.Multiset"
    "HOL-Library.Char_ord"
    "HOL-Library.List_Lexorder"
    "HOL-Library.Option_ord"
begin

section \<open>Data model\<close>

text \<open>
  JSON values as JavaScript holds them after \<^verbatim>\<open>JSON.parse\<close> and as PostgreSQL holds them in a
  \<^verbatim>\<open>JSONB\<close> column. Numbers are integers here; object keys are kept in a list.
\<close>

datatype json =
    JNull
  | JBool bool
  | JNum int
  | JStr string
  | JArr "json list"
  | JObj "(string \<times> json) list"

text \<open>
  Library operations the code calls and that are not part of the repository:
  \<^verbatim>\<open>JSON.parse\<close> (\<open>None\<close> is a thrown SyntaxError), the date parser behind
  \<^verbatim>\<open>new Date(text)\<close> (\<open>None\<close> is the Invalid Date), PostgreSQL's \<^verbatim>\<open>ILIKE\<close> (text, pattern)
  and the cast \<^verbatim>\<open>jsonb::text\<close>. They are parameters of the model.
\<close>

record runtime =
  JSON_parse :: "string \<Rightarrow> json option"
  Date_parse :: "string \<Rightarrow> int option"
  ilike :: "string \<Rightarrow> string \<Rightarrow> bool"
  jsonb_text :: "json \<Rightarrow> string"

text \<open>\<^verbatim>\<open>MigrationStats\<close> (part_000, lines 14-20).\<close>

record MigrationStats =
  totalEntries :: nat
  migratedEntries :: nat
  skippedEntries :: nat
  errors :: nat
  duration :: int

text \<open>
  Modelled from the spec: the classes \<^verbatim>\<open>MemoryError\<close> and \<^verbatim>\<open>MemoryBackendError\<close>
  (utils/errors.ts) are not among the sources. As the calls \<^verbatim>\<open>new MemoryError(message)\<close> and
  \<^verbatim>\<open>new MemoryError(message, { error })\<close> build them, and as spec 7 speaks of an error's
  attached context, such an error is a message and a details object, here the list of its keys
  with their values; a value is a caught exception or a \<^verbatim>\<open>MigrationStats\<close>.
  The other thrown values are JavaScript's own \<open>Error\<close>, \<open>SyntaxError\<close> and \<open>RangeError\<close>,
  and \<open>DriverError\<close> for whatever the SQLite or PostgreSQL driver throws.
\<close>

datatype js_error =
    Error string
  | SyntaxError string
  | RangeError string
  | DriverError string
  | MemoryError string "(string \<times> js_detail) list"
  | MemoryBackendError string "(string \<times> js_detail) list"
and js_detail =
    Cause js_error
  | StatsDetail MigrationStats

text \<open>The \<^verbatim>\<open>MigrationStats\<close> objects found among the values of an error's details object.\<close>

fun attached_stats :: "js_error \<Rightarrow> MigrationStats list" where
  "attached_stats (MemoryError msg ds) = [st. (k, StatsDetail st) \<leftarrow> ds]"
| "attached_stats (MemoryBackendError msg ds) = [st. (k, StatsDetail st) \<leftarrow> ds]"
| "attached_stats e = []"

text \<open>
  Modelled from the spec: the declaration of \<^verbatim>\<open>MemoryEntry\<close> (utils/types.ts) is not among
  the sources; the fields are those of spec 3, which are the ones \<^verbatim>\<open>convertEntry\<close>,
  \<^verbatim>\<open>rowToEntry\<close> and \<^verbatim>\<open>store\<close> write and read. The timestamp is a JavaScript \<^verbatim>\<open>Date\<close>:
  milliseconds since the epoch, or \<open>None\<close> for the Invalid Date. \<open>e_context\<close> and \<open>e_tags\<close>
  hold whatever JSON value the conversion produced. \<open>e_parentId\<close> and \<open>e_metadata\<close> are
  \<open>None\<close> when the key is absent.
\<close>

record MemoryEntry =
  e_id :: string
  e_agentId :: string
  e_sessionId :: string
  e_type :: string
  e_content :: string
  e_context :: json
  e_timestamp :: "int option"
  e_tags :: json
  e_version :: int
  e_parentId :: "string option"
  e_metadata :: "json option"

text \<open>
  A row of the SQLite table \<^verbatim>\<open>memory_entries\<close> as the reader returns it: every text column is
  a string or NULL (\<open>None\<close>), \<^verbatim>\<open>version\<close> an integer or NULL. SQLite has no structured values,
  so the branch \<^verbatim>\<open>typeof row.context === 'string'\<close> is taken exactly when the column is not
  NULL.
\<close>

record sqlite_row =
  r_id :: "string option"
  r_agent_id :: "string option"
  r_session_id :: "string option"
  r_type :: "string option"
  r_content :: "string option"
  r_context :: "string option"
  r_timestamp :: "string option"
  r_tags :: "string option"
  r_version :: "int option"
  r_parent_id :: "string option"
  r_metadata :: "string option"

text \<open>
  A row of \<^verbatim>\<open>claude_flow_graph.memory_entries\<close>. The columns \<^verbatim>\<open>created_at\<close> and
  \<^verbatim>\<open>updated_at\<close> (both \<^verbatim>\<open>NOW()\<close>) are read by no code under study and are left out.
\<close>

record pg_row =
  p_id :: string
  p_agent_id :: string
  p_session_id :: string
  p_type :: string
  p_content :: string
  p_context :: json
  p_timestamp :: int
  p_tags :: json
  p_version :: int
  p_parent_id :: "string option"
  p_metadata :: "json option"

section \<open>The source database\<close>

text \<open>
  The SQLite handle: the table in rowid order, the outcome the environment has decided for each
  statement still to come (\<open>Some e\<close>: the statement throws \<open>e\<close>; an exhausted list: success),
  and the statements answered so far with the size of each answer.
\<close>

datatype sqlite_event =
    CountQuery nat
  | PageQuery nat nat nat
  | SampleQuery nat
  | FailedQuery

record sqlite_db =
  s_table :: "sqlite_row list"
  s_outcomes :: "js_error option list"
  s_log :: "sqlite_event list"

definition next_outcome :: "js_error option list \<Rightarrow> js_error option \<times> js_error option list" where
  "next_outcome os = (case os of [] \<Rightarrow> (None, []) | x # rest \<Rightarrow> (x, rest))"

text \<open>
  \<^verbatim>\<open>ORDER BY timestamp\<close>: NULL first, then text in byte order. SQLite leaves the order of
  ties open; here they keep rowid order.
\<close>

definition by_timestamp :: "sqlite_row list \<Rightarrow> sqlite_row list" where
  "by_timestamp rows = sort_key r_timestamp rows"

text \<open>\<^verbatim>\<open>SELECT COUNT( * ) as count FROM memory_entries\<close>\<close>

definition sqlite_count :: "sqlite_db \<Rightarrow> (js_error + nat) \<times> sqlite_db" where
  "sqlite_count db =
     (case next_outcome (s_outcomes db) of
        (Some e, rest) \<Rightarrow>
          (Inl e, db\<lparr>s_outcomes := rest, s_log := s_log db @ [FailedQuery]\<rparr>)
      | (None, rest) \<Rightarrow>
          (Inr (length (s_table db)),
           db\<lparr>s_outcomes := rest, s_log := s_log db @ [CountQuery (length (s_table db))]\<rparr>))"

text \<open>\<^verbatim>\<open>SELECT * FROM memory_entries ORDER BY timestamp LIMIT ? OFFSET ?\<close>\<close>

definition sqlite_all :: "nat \<Rightarrow> nat \<Rightarrow> sqlite_db \<Rightarrow> (js_error + sqlite_row list) \<times> sqlite_db" where
  "sqlite_all lim off db =
     (case next_outcome (s_outcomes db) of
        (Some e, rest) \<Rightarrow>
          (Inl e, db\<lparr>s_outcomes := rest, s_log := s_log db @ [FailedQuery]\<rparr>)
      | (None, rest) \<Rightarrow>
          (let batch = take lim (drop off (by_timestamp (s_table db)))
           in (Inr batch,
               db\<lparr>s_outcomes := rest, s_log := s_log db @ [PageQuery lim off (length batch)]\<rparr>)))"

text \<open>\<^verbatim>\<open>SELECT * FROM memory_entries ORDER BY timestamp LIMIT 5\<close>\<close>

definition sqlite_sample :: "sqlite_db \<Rightarrow> (js_error + sqlite_row list) \<times> sqlite_db" where
  "sqlite_sample db =
     (case next_outcome (s_outcomes db) of
        (Some e, rest) \<Rightarrow>
          (Inl e, db\<lparr>s_outcomes := rest, s_log := s_log db @ [FailedQuery]\<rparr>)
      | (None, rest) \<Rightarrow>
          (let rows = take 5 (by_timestamp (s_table db))
           in (Inr rows,
               db\<lparr>s_outcomes := rest, s_log := s_log db @ [SampleQuery (length rows)]\<rparr>)))"

section \<open>The target database\<close>

text \<open>
  The PostgreSQL database behind a pool: whether the schema with its tables exists, the rows of
  \<^verbatim>\<open>memory_entries\<close>, the outcome decided for each statement still to come (connectivity loss,
  a violated constraint, ...) and the statements sent so far. A statement that fails changes no
  row.
\<close>

datatype cond =
    AgentIdEq string
  | SessionIdEq string
  | TypeEq string
  | TimestampGe int
  | TimestampLe int
  | SearchLike string
  | TagsAny "string list"
  | NamespaceEq string

datatype pg_stmt =
    Connect
  | Select1
  | CreateTables
  | Upsert "pg_row list"
  | CountEntries
  | SelectById "string option"
  | SelectWhere "cond list" "int option" "int option"

record pg_db =
  has_schema :: bool
  memory_entries :: "pg_row list"
  pg_outcomes :: "js_error option list"
  pg_log :: "pg_stmt list"

text \<open>Sending a statement: it is logged and the next outcome is consumed.\<close>

definition pg_send :: "pg_stmt \<Rightarrow> pg_db \<Rightarrow> js_error option \<times> pg_db" where
  "pg_send stmt db =
     (case next_outcome (pg_outcomes db) of
        (oc, rest) \<Rightarrow> (oc, db\<lparr>pg_outcomes := rest, pg_log := pg_log db @ [stmt]\<rparr>))"

text \<open>A statement on \<^verbatim>\<open>memory_entries\<close> also fails when the relation does not exist.\<close>

definition pg_on_table :: "pg_stmt \<Rightarrow> pg_db \<Rightarrow> js_error option \<times> pg_db" where
  "pg_on_table stmt db =
     (case pg_send stmt db of
        (Some e, db') \<Rightarrow> (Some e, db')
      | (None, db') \<Rightarrow>
          if has_schema db' then (None, db')
          else (Some (DriverError ''relation memory_entries does not exist''), db'))"

text \<open>
  \<^verbatim>\<open>INSERT ... ON CONFLICT (id) DO UPDATE SET ...\<close> for one row: every column of the row
  with that id is overwritten, or the row is added.
\<close>

definition upsert_row :: "pg_row list \<Rightarrow> pg_row \<Rightarrow> pg_row list" where
  "upsert_row rows r =
     (if \<exists>r' \<in> set rows. p_id r' = p_id r
      then map (\<lambda>r'. if p_id r' = p_id r then r else r') rows
      else rows @ [r])"

definition pg_upsert :: "pg_row list \<Rightarrow> pg_db \<Rightarrow> (js_error + unit) \<times> pg_db" where
  "pg_upsert rows db =
     (case pg_on_table (Upsert rows) db of
        (Some e, db') \<Rightarrow> (Inl e, db')
      | (None, db') \<Rightarrow>
          (Inr (), db'\<lparr>memory_entries := foldl upsert_row (memory_entries db') rows\<rparr>))"

text \<open>The DDL script of \<^verbatim>\<open>createPostgreSQLTables\<close>, every part of it \<^verbatim>\<open>IF NOT EXISTS\<close>.\<close>

definition pg_create_tables :: "pg_db \<Rightarrow> (js_error + unit) \<times> pg_db" where
  "pg_create_tables db =
     (case pg_send CreateTables db of
        (Some e, db') \<Rightarrow> (Inl e, db')
      | (None, db') \<Rightarrow> (Inr (), db'\<lparr>has_schema := True\<rparr>))"

text \<open>\<^verbatim>\<open>SELECT COUNT( * ) as count FROM claude_flow_graph.memory_entries\<close>\<close>

definition pg_count :: "pg_db \<Rightarrow> (js_error + nat) \<times> pg_db" where
  "pg_count db =
     (case pg_on_table CountEntries db of
        (Some e, db') \<Rightarrow> (Inl e, db')
      | (None, db') \<Rightarrow> (Inr (length (memory_entries db')), db'))"

text \<open>
  \<^verbatim>\<open>SELECT * FROM claude_flow_graph.memory_entries WHERE id = $1\<close>; a NULL parameter matches
  no row.
\<close>

definition pg_select_by_id :: "string option \<Rightarrow> pg_db \<Rightarrow> (js_error + pg_row list) \<times> pg_db" where
  "pg_select_by_id i db =
     (case pg_on_table (SelectById i) db of
        (Some e, db') \<Rightarrow> (Inl e, db')
      | (None, db') \<Rightarrow> (Inr (filter (\<lambda>r. Some (p_id r) = i) (memory_entries db')), db'))"

section \<open>The migrator\<close>

text \<open>
  \<^verbatim>\<open>SQLiteToPostgreSQLMigrator\<close> (part_000, lines 22-32). \<open>None\<close> is a handle that is
  \<^verbatim>\<open>undefined\<close>. The paths, the connection string and the logger do not influence any result.
  \<^verbatim>\<open>batchSize\<close> is the \<^verbatim>\<open>LIMIT\<close> of each page, a natural number (the constructor's default
  is 1000, the command line asks for a positive integer); 0 is allowed and gives empty pages.
\<close>

record migrator =
  sqliteDb :: "sqlite_db option"
  pgPool :: "pg_db option"
  sqliteLoaded :: bool
  batchSize :: nat

text \<open>JavaScript truthiness of a text column: neither \<^verbatim>\<open>null\<close> nor the empty string.\<close>

definition truthy :: "string option \<Rightarrow> bool" where
  "truthy v = (case v of None \<Rightarrow> False | Some s \<Rightarrow> s \<noteq> [])"

definition text_of :: "string option \<Rightarrow> string" where
  "text_of v = (case v of None \<Rightarrow> [] | Some s \<Rightarrow> s)"

text \<open>\<^verbatim>\<open>validateEntry\<close> (lines 286-294).\<close>

definition validateEntry :: "sqlite_row \<Rightarrow> js_error + unit" where
  "validateEntry row =
     (if \<not> truthy (r_id row) \<or> \<not> truthy (r_agent_id row) \<or> \<not> truthy (r_session_id row)
         \<or> \<not> truthy (r_type row) \<or> \<not> truthy (r_content row)
      then Inl (Error ''Missing required fields'')
      else if \<not> truthy (r_timestamp row) then Inl (Error ''Missing timestamp'')
      else Inr ())"

text \<open>
  \<^verbatim>\<open>typeof v === 'string' ? JSON.parse(v) : v\<close> on a column: text is parsed, NULL stays
  \<^verbatim>\<open>null\<close>.
\<close>

definition parse_if_string :: "runtime \<Rightarrow> string option \<Rightarrow> js_error + json" where
  "parse_if_string rt v =
     (case v of
        None \<Rightarrow> Inr JNull
      | Some s \<Rightarrow>
          (case JSON_parse rt s of
             None \<Rightarrow> Inl (SyntaxError ''Unexpected token in JSON'')
           | Some j \<Rightarrow> Inr j))"

text \<open>
  \<^verbatim>\<open>convertEntry\<close> (lines 296-314); the fields are evaluated in the order of the object
  literal, so the first failing \<^verbatim>\<open>JSON.parse\<close> is the one thrown.
\<close>

definition convertEntry :: "runtime \<Rightarrow> sqlite_row \<Rightarrow> js_error + MemoryEntry" where
  "convertEntry rt row =
     (case validateEntry row of
        Inl e \<Rightarrow> Inl e
      | Inr _ \<Rightarrow>
          (case parse_if_string rt (r_context row) of
             Inl e \<Rightarrow> Inl e
           | Inr ctx \<Rightarrow>
               (case parse_if_string rt (r_tags row) of
                  Inl e \<Rightarrow> Inl e
                | Inr tgs \<Rightarrow>
                    (case (if truthy (r_metadata row)
                           then map_sum id Some (parse_if_string rt (r_metadata row))
                           else Inr None) of
                       Inl e \<Rightarrow> Inl e
                     | Inr md \<Rightarrow>
                         Inr \<lparr>e_id = text_of (r_id row),
                              e_agentId = text_of (r_agent_id row),
                              e_sessionId = text_of (r_session_id row),
                              e_type = text_of (r_type row),
                              e_content = text_of (r_content row),
                              e_context = ctx,
                              e_timestamp = Date_parse rt (text_of (r_timestamp row)),
                              e_tags = tgs,
                              e_version =
                                (case r_version row of
                                   None \<Rightarrow> 1
                                 | Some v \<Rightarrow> if v = 0 then 1 else v),
                              e_parentId =
                                (if truthy (r_parent_id row) then r_parent_id row else None),
                              e_metadata = md\<rparr>))))"

text \<open>JavaScript truthiness of a JSON value.\<close>

definition json_truthy :: "json \<Rightarrow> bool" where
  "json_truthy j =
     (case j of
        JNull \<Rightarrow> False
      | JBool b \<Rightarrow> b
      | JNum n \<Rightarrow> n \<noteq> 0
      | JStr s \<Rightarrow> s \<noteq> []
      | JArr xs \<Rightarrow> True
      | JObj kvs \<Rightarrow> True)"

text \<open>
  The eleven parameters of one entry (lines 330-342 of part_000, lines 95-107 of
  postgresql.ts), as the row they make. \<^verbatim>\<open>toISOString\<close> throws on the Invalid Date;
  \<^verbatim>\<open>JSON.stringify\<close> followed by PostgreSQL's reading of the text gives the value back.
\<close>

definition entry_params :: "MemoryEntry \<Rightarrow> js_error + pg_row" where
  "entry_params entry =
     (case e_timestamp entry of
        None \<Rightarrow> Inl (RangeError ''Invalid time value'')
      | Some t \<Rightarrow>
          Inr \<lparr>p_id = e_id entry,
               p_agent_id = e_agentId entry,
               p_session_id = e_sessionId entry,
               p_type = e_type entry,
               p_content = e_content entry,
               p_context = e_context entry,
               p_timestamp = t,
               p_tags = e_tags entry,
               p_version = e_version entry,
               p_parent_id = (if truthy (e_parentId entry) then e_parentId entry else None),
               p_metadata =
                 (case e_metadata entry of
                    None \<Rightarrow> None
                  | Some j \<Rightarrow> if json_truthy j then Some j else None)\<rparr>)"

text \<open>The loop of \<^verbatim>\<open>insertBatch\<close> that fills \<^verbatim>\<open>params\<close> (lines 325-343).\<close>

fun batch_params :: "MemoryEntry list \<Rightarrow> js_error + pg_row list" where
  "batch_params [] = Inr []"
| "batch_params (entry # rest) =
     (case entry_params entry of
        Inl e \<Rightarrow> Inl e
      | Inr r \<Rightarrow>
          (case batch_params rest of
             Inl e \<Rightarrow> Inl e
           | Inr rs \<Rightarrow> Inr (r # rs)))"

text \<open>
  \<^verbatim>\<open>insertBatch\<close> (lines 316-365). It is called with the pool defined, so of its guard
  only \<^verbatim>\<open>entries.length === 0\<close> remains.
\<close>

definition insertBatch :: "MemoryEntry list \<Rightarrow> pg_db \<Rightarrow> (js_error + unit) \<times> pg_db" where
  "insertBatch entries pdb =
     (if entries = [] then (Inr (), pdb)
      else
        (case batch_params entries of
           Inl e \<Rightarrow> (Inl e, pdb)
         | Inr rows \<Rightarrow> pg_upsert rows pdb))"

text \<open>\<^verbatim>\<open>createPostgreSQLTables\<close> (lines 239-284), called with the pool defined.\<close>

definition createPostgreSQLTables :: "pg_db \<Rightarrow> (js_error + unit) \<times> pg_db" where
  "createPostgreSQLTables pdb = pg_create_tables pdb"

text \<open>The counters \<^verbatim>\<open>migrateBatch\<close> returns: \<^verbatim>\<open>MigrationStats\<close> without total and duration.\<close>

record BatchStats =
  batchMigrated :: nat
  batchSkipped :: nat
  batchErrors :: nat

text \<open>One turn of the dry-run loop (lines 200-208).\<close>

definition validate_step :: "BatchStats \<Rightarrow> sqlite_row \<Rightarrow> BatchStats" where
  "validate_step stats row =
     (case validateEntry row of
        Inr _ \<Rightarrow> stats\<lparr>batchMigrated := batchMigrated stats + 1\<rparr>
      | Inl _ \<Rightarrow> stats\<lparr>batchSkipped := batchSkipped stats + 1\<rparr>)"

text \<open>
  \<^verbatim>\<open>migrateBatch\<close> (lines 188-237). In live mode a row that fails conversion maps to
  \<^verbatim>\<open>null\<close> (\<open>None\<close>) and raises \<^verbatim>\<open>skippedEntries\<close>; the \<^verbatim>\<open>null\<close>s are filtered out and the
  other entries are written by one \<^verbatim>\<open>insertBatch\<close>, whose exception is caught.
\<close>

definition migrateBatch ::
  "runtime \<Rightarrow> sqlite_row list \<Rightarrow> bool \<Rightarrow> pg_db \<Rightarrow> BatchStats \<times> pg_db" where
  "migrateBatch rt batch dryRun pdb =
     (let stats = \<lparr>batchMigrated = 0, batchSkipped = 0, batchErrors = 0\<rparr>
      in if dryRun then (foldl validate_step stats batch, pdb)
         else
           (let converted =
                  map (\<lambda>row. case convertEntry rt row of Inr e \<Rightarrow> Some e | Inl _ \<Rightarrow> None) batch;
                stats1 = stats\<lparr>batchSkipped := length (filter (\<lambda>entry. entry = None) converted)\<rparr>;
                pgEntries = map the (filter (\<lambda>entry. entry \<noteq> None) converted)
            in if length pgEntries > 0
               then
                 (case insertBatch pgEntries pdb of
                    (Inr _, pdb') \<Rightarrow> (stats1\<lparr>batchMigrated := length pgEntries\<rparr>, pdb')
                  | (Inl _, pdb') \<Rightarrow> (stats1\<lparr>batchErrors := length pgEntries\<rparr>, pdb'))
               else (stats1, pdb)))"

text \<open>
  The \<^verbatim>\<open>while\<close> loop of \<^verbatim>\<open>migrate\<close> (lines 125-143). A throw leaves the loop with the
  exception and the value \<^verbatim>\<open>stats\<close> holds at that moment.
\<close>

function migrate_loop ::
  "runtime \<Rightarrow> bool \<Rightarrow> nat \<Rightarrow> nat \<Rightarrow> MigrationStats \<Rightarrow> sqlite_db \<Rightarrow> pg_db
     \<Rightarrow> (js_error \<times> MigrationStats + MigrationStats) \<times> sqlite_db \<times> pg_db" where
  "migrate_loop rt dryRun bs offset stats sdb pdb =
     (if offset < totalEntries stats then
        (case sqlite_all bs offset sdb of
           (Inl e, sdb') \<Rightarrow> (Inl (e, stats), sdb', pdb)
         | (Inr batch, sdb') \<Rightarrow>
             if length batch = 0 then (Inr stats, sdb', pdb)
             else
               (case migrateBatch rt batch dryRun pdb of
                  (batchStats, pdb') \<Rightarrow>
                    migrate_loop rt dryRun bs (offset + bs)
                      (stats\<lparr>migratedEntries := migratedEntries stats + batchMigrated batchStats,
                             skippedEntries := skippedEntries stats + batchSkipped batchStats,
                             errors := errors stats + batchErrors batchStats\<rparr>)
                      sdb' pdb'))
      else (Inr stats, sdb, pdb))"
  by pat_completeness auto
termination
proof (relation "measure (\<lambda>(rt, dryRun, bs, offset, stats, sdb, pdb). totalEntries stats - offset)")
  show "wf (measure (\<lambda>(rt, dryRun, bs, offset, stats, sdb, pdb). totalEntries stats - offset))"
    by simp
next
  fix rt :: runtime and dryRun :: bool and bs offset :: nat and stats :: MigrationStats
    and sdb :: sqlite_db and pdb :: pg_db and x1 x2 batch x y z
  assume lt: "offset < totalEntries stats"
    and page: "(x1, x2) = sqlite_all bs offset sdb" "x1 = Inr batch"
    and ne: "length batch \<noteq> 0"
  from page have "sqlite_all bs offset sdb = (Inr batch, x2)" by simp
  then have "length batch \<le> bs"
    by (auto simp: sqlite_all_def Let_def split: prod.splits option.splits)
  with ne have "0 < bs" by (cases batch) auto
  with lt show "((rt, dryRun, bs, offset + bs,
        stats\<lparr>migratedEntries := migratedEntries stats + batchMigrated y,
              skippedEntries := skippedEntries stats + batchSkipped y,
              errors := errors stats + batchErrors y\<rparr>, x2, z),
       (rt, dryRun, bs, offset, stats, sdb, pdb))
      \<in> measure (\<lambda>(rt, dryRun, bs, offset, stats, sdb, pdb). totalEntries stats - offset)"
    by simp
qed

text \<open>
  The \<^verbatim>\<open>try\<close> block of \<^verbatim>\<open>migrate\<close> (lines 105-148). \<open>t0\<close> and \<open>t1\<close> are the readings of
  \<^verbatim>\<open>Date.now()\<close> at the start and at the return.
\<close>

definition migrate_try ::
  "runtime \<Rightarrow> int \<Rightarrow> int \<Rightarrow> bool \<Rightarrow> nat \<Rightarrow> sqlite_db \<Rightarrow> pg_db
     \<Rightarrow> (js_error \<times> MigrationStats + MigrationStats) \<times> sqlite_db \<times> pg_db" where
  "migrate_try rt t0 t1 dryRun bs sdb pdb =
     (let stats0 = \<lparr>totalEntries = 0, migratedEntries = 0, skippedEntries = 0,
                     errors = 0, duration = 0\<rparr>
      in case sqlite_count sdb of
           (Inl e, sdb1) \<Rightarrow> (Inl (e, stats0), sdb1, pdb)
         | (Inr n, sdb1) \<Rightarrow>
             (let stats = stats0\<lparr>totalEntries := n\<rparr>
              in if totalEntries stats = 0
                 then (Inr (stats\<lparr>duration := t1 - t0\<rparr>), sdb1, pdb)
                 else
                   (case (if \<not> dryRun then createPostgreSQLTables pdb else (Inr (), pdb)) of
                      (Inl e, pdb1) \<Rightarrow> (Inl (e, stats), sdb1, pdb1)
                    | (Inr _, pdb1) \<Rightarrow>
                        (case migrate_loop rt dryRun bs 0 stats sdb1 pdb1 of
                           (Inl e, sdb2, pdb2) \<Rightarrow> (Inl e, sdb2, pdb2)
                         | (Inr stats', sdb2, pdb2) \<Rightarrow>
                             (Inr (stats'\<lparr>duration := t1 - t0\<rparr>), sdb2, pdb2)))))"

text \<open>
  \<^verbatim>\<open>migrate\<close> (lines 89-153): the guard, the \<^verbatim>\<open>try\<close> block, and the \<^verbatim>\<open>catch\<close> that wraps
  the exception as \<^verbatim>\<open>new MemoryError('Migration failed', { error })\<close>.
\<close>

definition migrate ::
  "runtime \<Rightarrow> int \<Rightarrow> int \<Rightarrow> bool \<Rightarrow> migrator \<Rightarrow> (js_error + MigrationStats) \<times> migrator" where
  "migrate rt t0 t1 dryRun m =
     (case (sqliteDb m, pgPool m) of
        (Some sdb, Some pdb) \<Rightarrow>
          (case migrate_try rt t0 t1 dryRun (batchSize m) sdb pdb of
             (Inl (e, partial), sdb', pdb') \<Rightarrow>
               (Inl (MemoryError ''Migration failed'' [(''error'', Cause e)]),
                m\<lparr>sqliteDb := Some sdb', pgPool := Some pdb'\<rparr>)
           | (Inr stats, sdb', pdb') \<Rightarrow>
               (Inr stats, m\<lparr>sqliteDb := Some sdb', pgPool := Some pdb'\<rparr>))
      | _ \<Rightarrow> (Inl (MemoryError ''Migrator not initialized'' []), m))"

text \<open>The \<^verbatim>\<open>for\<close> loop of \<^verbatim>\<open>verifySampleEntries\<close> (lines 383-403).\<close>

fun check_samples :: "sqlite_row list \<Rightarrow> pg_db \<Rightarrow> (js_error + bool) \<times> pg_db" where
  "check_samples [] pdb = (Inr True, pdb)"
| "check_samples (entry # rest) pdb =
     (case pg_select_by_id (r_id entry) pdb of
        (Inl e, pdb') \<Rightarrow> (Inl e, pdb')
      | (Inr rows, pdb') \<Rightarrow>
          (case rows of
             [] \<Rightarrow> (Inr False, pdb')
           | pgEntry # _ \<Rightarrow>
               if Some (p_agent_id pgEntry) \<noteq> r_agent_id entry
                  \<or> Some (p_session_id pgEntry) \<noteq> r_session_id entry
                  \<or> Some (p_content pgEntry) \<noteq> r_content entry
               then (Inr False, pdb')
               else check_samples rest pdb'))"

text \<open>The \<^verbatim>\<open>try\<close> block of \<^verbatim>\<open>verifySampleEntries\<close> (lines 372-405).\<close>

definition verifySampleEntries_try ::
  "sqlite_db \<Rightarrow> pg_db \<Rightarrow> (js_error + bool) \<times> sqlite_db \<times> pg_db" where
  "verifySampleEntries_try sdb pdb =
     (case sqlite_sample sdb of
        (Inl e, sdb') \<Rightarrow> (Inl e, sdb', pdb)
      | (Inr sampleEntries, sdb') \<Rightarrow>
          if length sampleEntries = 0 then (Inr True, sdb', pdb)
          else (case check_samples sampleEntries pdb of (r, pdb') \<Rightarrow> (r, sdb', pdb')))"

text \<open>
  \<^verbatim>\<open>verifySampleEntries\<close> (lines 367-410), called with both handles defined: the
  \<^verbatim>\<open>catch\<close> turns every exception of the block into \<^verbatim>\<open>false\<close>.
\<close>

definition verifySampleEntries :: "sqlite_db \<Rightarrow> pg_db \<Rightarrow> bool \<times> sqlite_db \<times> pg_db" where
  "verifySampleEntries sdb pdb =
     (case verifySampleEntries_try sdb pdb of
        (Inl e, sdb', pdb') \<Rightarrow> (False, sdb', pdb')
      | (Inr b, sdb', pdb') \<Rightarrow> (b, sdb', pdb'))"

record Verification =
  sqliteCount :: nat
  postgresCount :: nat
  match :: bool
  sampleVerification :: bool

text \<open>
  \<^verbatim>\<open>verifyMigration\<close> (lines 155-186). The two count probes stand outside any \<^verbatim>\<open>try\<close>.
\<close>

definition verifyMigration :: "migrator \<Rightarrow> (js_error + Verification) \<times> migrator" where
  "verifyMigration m =
     (case (sqliteDb m, pgPool m) of
        (Some sdb, Some pdb) \<Rightarrow>
          (case sqlite_count sdb of
             (Inl e, sdb1) \<Rightarrow> (Inl e, m\<lparr>sqliteDb := Some sdb1\<rparr>)
           | (Inr sc, sdb1) \<Rightarrow>
               (case pg_count pdb of
                  (Inl e, pdb1) \<Rightarrow> (Inl e, m\<lparr>sqliteDb := Some sdb1, pgPool := Some pdb1\<rparr>)
                | (Inr pc, pdb1) \<Rightarrow>
                    (case verifySampleEntries sdb1 pdb1 of
                       (sv, sdb2, pdb2) \<Rightarrow>
                         (Inr \<lparr>sqliteCount = sc, postgresCount = pc,
                               match = (sc = pc), sampleVerification = sv\<rparr>,
                          m\<lparr>sqliteDb := Some sdb2, pgPool := Some pdb2\<rparr>))))
      | _ \<Rightarrow> (Inl (MemoryError ''Migrator not initialized'' []), m))"

text \<open>
  What \<^verbatim>\<open>initialize\<close> meets outside the migrator: whether the SQLite module is available, what
  \<^verbatim>\<open>createDatabase(sqlitePath)\<close> gives, and the database the connection string names.
\<close>

record world =
  sqlite_available :: bool
  sqlite_file :: "js_error + sqlite_db"
  pg_server :: pg_db

text \<open>
  The \<^verbatim>\<open>try\<close> block of \<^verbatim>\<open>initialize\<close> (lines 37-69). \<^verbatim>\<open>new Pool\<close> opens no connection; the
  field \<^verbatim>\<open>pgPool\<close> is assigned before the connection is tested.
\<close>

definition initialize_try :: "world \<Rightarrow> migrator \<Rightarrow> (js_error + unit) \<times> migrator" where
  "initialize_try w m =
     (let m1 = (if \<not> sqliteLoaded m then m\<lparr>sqliteLoaded := True\<rparr> else m)
      in if \<not> sqlite_available w then (Inl (Error ''SQLite module not available''), m1)
         else
           (case sqlite_file w of
              Inl e \<Rightarrow> (Inl e, m1)
            | Inr sdb \<Rightarrow>
                (let m2 = m1\<lparr>sqliteDb := Some sdb\<rparr>;
                     m3 = m2\<lparr>pgPool := Some (pg_server w)\<rparr>
                 in case pg_send Connect (pg_server w) of
                      (Some e, pdb1) \<Rightarrow> (Inl e, m3\<lparr>pgPool := Some pdb1\<rparr>)
                    | (None, pdb1) \<Rightarrow>
                        (case pg_send Select1 pdb1 of
                           (Some e, pdb2) \<Rightarrow> (Inl e, m3\<lparr>pgPool := Some pdb2\<rparr>)
                         | (None, pdb2) \<Rightarrow> (Inr (), m3\<lparr>pgPool := Some pdb2\<rparr>)))))"

text \<open>\<^verbatim>\<open>initialize\<close> (lines 34-73).\<close>

definition initialize :: "world \<Rightarrow> migrator \<Rightarrow> (js_error + unit) \<times> migrator" where
  "initialize w m =
     (case initialize_try w m of
        (Inl e, m') \<Rightarrow> (Inl (MemoryError ''Failed to initialize migrator'' [(''error'', Cause e)]), m')
      | (Inr u, m') \<Rightarrow> (Inr u, m'))"

text \<open>\<^verbatim>\<open>shutdown\<close> (lines 75-87).\<close>

definition shutdown :: "migrator \<Rightarrow> migrator" where
  "shutdown m = m\<lparr>sqliteDb := None, pgPool := None\<rparr>"

text \<open>The migrator the constructor makes (lines 23-32).\<close>

definition new_migrator :: "nat \<Rightarrow> migrator" where
  "new_migrator bs = \<lparr>sqliteDb = None, pgPool = None, sqliteLoaded = False, batchSize = bs\<rparr>"

section \<open>The PostgreSQL backend\<close>

text \<open>\<^verbatim>\<open>PostgreSQLBackend\<close> (postgresql.ts, lines 14-26).\<close>

record PostgreSQLBackend =
  pool :: "pg_db option"
  initialized :: bool

text \<open>
  Modelled from the spec: the declaration of \<^verbatim>\<open>MemoryQuery\<close> (utils/types.ts) is not among the
  sources; the fields are the ten of the filter object of spec 4.2, each optional, as
  \<^verbatim>\<open>query\<close> reads them. A time bound is a \<^verbatim>\<open>Date\<close>, possibly the Invalid Date.
\<close>

record MemoryQuery =
  q_agentId :: "string option"
  q_sessionId :: "string option"
  q_type :: "string option"
  q_startTime :: "int option option"
  q_endTime :: "int option option"
  q_search :: "string option"
  q_tags :: "string list option"
  q_namespace :: "string option"
  q_limit :: "int option"
  q_offset :: "int option"

text \<open>
  The operator \<^verbatim>\<open>jsonb ? text\<close>: the text is an element of the array, a key of the object, or
  the string itself.
\<close>

definition jsonb_exists :: "json \<Rightarrow> string \<Rightarrow> bool" where
  "jsonb_exists j t =
     (case j of
        JArr xs \<Rightarrow> JStr t \<in> set xs
      | JObj kvs \<Rightarrow> t \<in> set (map fst kvs)
      | JStr s \<Rightarrow> s = t
      | _ \<Rightarrow> False)"

text \<open>The operator \<^verbatim>\<open>jsonb ->> key\<close>: NULL unless the value is an object with that key.\<close>

definition jsonb_get_text :: "runtime \<Rightarrow> json \<Rightarrow> string \<Rightarrow> string option" where
  "jsonb_get_text rt j k =
     (case j of
        JObj kvs \<Rightarrow>
          (case map_of kvs k of
             None \<Rightarrow> None
           | Some v \<Rightarrow>
               (case v of
                  JNull \<Rightarrow> None
                | JStr s \<Rightarrow> Some s
                | _ \<Rightarrow> Some (jsonb_text rt v)))
      | _ \<Rightarrow> None)"

text \<open>What each condition that \<^verbatim>\<open>query\<close> can push (lines 164-204) means for a row.\<close>

fun eval_cond :: "runtime \<Rightarrow> cond \<Rightarrow> pg_row \<Rightarrow> bool" where
  "eval_cond rt (AgentIdEq a) r = (p_agent_id r = a)"
| "eval_cond rt (SessionIdEq s) r = (p_session_id r = s)"
| "eval_cond rt (TypeEq t) r = (p_type r = t)"
| "eval_cond rt (TimestampGe t) r = (t \<le> p_timestamp r)"
| "eval_cond rt (TimestampLe t) r = (p_timestamp r \<le> t)"
| "eval_cond rt (SearchLike s) r =
     (ilike rt (p_content r) (''%'' @ s @ ''%'')
      \<or> ilike rt (jsonb_text rt (p_tags r)) (''%'' @ s @ ''%''))"
| "eval_cond rt (TagsAny ts) r = (\<exists>t \<in> set ts. jsonb_exists (p_tags r) t)"
| "eval_cond rt (NamespaceEq n) r =
     (case p_metadata r of
        None \<Rightarrow> False
      | Some j \<Rightarrow> jsonb_get_text rt j ''namespace'' = Some n)"

text \<open>
  \<^verbatim>\<open>ORDER BY timestamp DESC\<close>. PostgreSQL leaves the order of ties open; here they keep the
  order of the table.
\<close>

definition by_timestamp_desc :: "pg_row list \<Rightarrow> pg_row list" where
  "by_timestamp_desc rows = sort_key (\<lambda>r. - p_timestamp r) rows"

text \<open>
  \<^verbatim>\<open>SELECT * FROM claude_flow_graph.memory_entries [WHERE c1 AND ... AND cn]
  ORDER BY timestamp DESC [LIMIT l] [OFFSET o]\<close>. PostgreSQL rejects a negative \<^verbatim>\<open>LIMIT\<close> or
  \<^verbatim>\<open>OFFSET\<close>, and skips the offset before it cuts at the limit.
\<close>

definition pg_select_where ::
  "runtime \<Rightarrow> cond list \<Rightarrow> int option \<Rightarrow> int option \<Rightarrow> pg_db
     \<Rightarrow> (js_error + pg_row list) \<times> pg_db" where
  "pg_select_where rt conds lim off db =
     (case pg_on_table (SelectWhere conds lim off) db of
        (Some e, db') \<Rightarrow> (Inl e, db')
      | (None, db') \<Rightarrow>
          if (case lim of None \<Rightarrow> False | Some l \<Rightarrow> l < 0)
          then (Inl (DriverError ''LIMIT must not be negative''), db')
          else if (case off of None \<Rightarrow> False | Some k \<Rightarrow> k < 0)
          then (Inl (DriverError ''OFFSET must not be negative''), db')
          else
            (let matching = filter (\<lambda>r. \<forall>c \<in> set conds. eval_cond rt c r) (memory_entries db');
                 ordered = by_timestamp_desc matching;
                 skipped = (case off of None \<Rightarrow> ordered | Some k \<Rightarrow> drop (nat k) ordered);
                 cut = (case lim of None \<Rightarrow> skipped | Some l \<Rightarrow> take (nat l) skipped)
             in (Inr cut, db')))"

text \<open>
  \<^verbatim>\<open>rowToEntry\<close> (lines 406-428). The driver hands a \<^verbatim>\<open>JSONB\<close> value over parsed, so
  \<^verbatim>\<open>typeof v === 'string'\<close> holds when the value is a JSON string, which is then parsed again.
\<close>

definition reparse :: "runtime \<Rightarrow> json \<Rightarrow> js_error + json" where
  "reparse rt v =
     (case v of
        JStr s \<Rightarrow>
          (case JSON_parse rt s of
             None \<Rightarrow> Inl (SyntaxError ''Unexpected token in JSON'')
           | Some j \<Rightarrow> Inr j)
      | _ \<Rightarrow> Inr v)"

definition rowToEntry :: "runtime \<Rightarrow> pg_row \<Rightarrow> js_error + MemoryEntry" where
  "rowToEntry rt row =
     (case reparse rt (p_context row) of
        Inl e \<Rightarrow> Inl e
      | Inr ctx \<Rightarrow>
          (case reparse rt (p_tags row) of
             Inl e \<Rightarrow> Inl e
           | Inr tgs \<Rightarrow>
               (case (case p_metadata row of
                        None \<Rightarrow> Inr None
                      | Some j \<Rightarrow>
                          if json_truthy j then map_sum id Some (reparse rt j) else Inr None) of
                  Inl e \<Rightarrow> Inl e
                | Inr md \<Rightarrow>
                    Inr \<lparr>e_id = p_id row,
                         e_agentId = p_agent_id row,
                         e_sessionId = p_session_id row,
                         e_type = p_type row,
                         e_content = p_content row,
                         e_context = ctx,
                         e_timestamp = Some (p_timestamp row),
                         e_tags = tgs,
                         e_version = p_version row,
                         e_parentId =
                           (if truthy (p_parent_id row) then p_parent_id row else None),
                         e_metadata = md\<rparr>)))"

text \<open>\<^verbatim>\<open>result.rows.map(row => this.rowToEntry(row))\<close>: the first exception ends the map.\<close>

fun rows_to_entries :: "runtime \<Rightarrow> pg_row list \<Rightarrow> js_error + MemoryEntry list" where
  "rows_to_entries rt [] = Inr []"
| "rows_to_entries rt (row # rest) =
     (case rowToEntry rt row of
        Inl e \<Rightarrow> Inl e
      | Inr entry \<Rightarrow>
          (case rows_to_entries rt rest of
             Inl e \<Rightarrow> Inl e
           | Inr entries \<Rightarrow> Inr (entry # entries)))"

text \<open>
  \<^verbatim>\<open>store\<close> (lines 71-114). The parameters are built outside the \<^verbatim>\<open>try\<close>, so the
  \<^verbatim>\<open>RangeError\<close> of an Invalid Date is not wrapped.
\<close>

definition store :: "MemoryEntry \<Rightarrow> PostgreSQLBackend \<Rightarrow> (js_error + unit) \<times> PostgreSQLBackend" where
  "store entry b =
     (case pool b of
        None \<Rightarrow> (Inl (MemoryBackendError ''Database not initialized'' []), b)
      | Some db \<Rightarrow>
          (case entry_params entry of
             Inl e \<Rightarrow> (Inl e, b)
           | Inr row \<Rightarrow>
               (case pg_upsert [row] db of
                  (Inl e, db') \<Rightarrow>
                    (Inl (MemoryBackendError ''Failed to store entry'' [(''error'', Cause e)]),
                     b\<lparr>pool := Some db'\<rparr>)
                | (Inr u, db') \<Rightarrow> (Inr (), b\<lparr>pool := Some db'\<rparr>))))"

text \<open>\<^verbatim>\<open>update\<close> (lines 136-139).\<close>

definition update ::
  "string \<Rightarrow> MemoryEntry \<Rightarrow> PostgreSQLBackend \<Rightarrow> (js_error + unit) \<times> PostgreSQLBackend" where
  "update i entry b = store entry b"

text \<open>\<^verbatim>\<open>retrieve\<close> (lines 116-134); \<open>Inr None\<close> is \<^verbatim>\<open>undefined\<close>.\<close>

definition retrieve ::
  "runtime \<Rightarrow> string \<Rightarrow> PostgreSQLBackend
     \<Rightarrow> (js_error + MemoryEntry option) \<times> PostgreSQLBackend" where
  "retrieve rt i b =
     (case pool b of
        None \<Rightarrow> (Inl (MemoryBackendError ''Database not initialized'' []), b)
      | Some db \<Rightarrow>
          (case pg_select_by_id (Some i) db of
             (Inl e, db') \<Rightarrow>
               (Inl (MemoryBackendError ''Failed to retrieve entry'' [(''error'', Cause e)]),
                b\<lparr>pool := Some db'\<rparr>)
           | (Inr rows, db') \<Rightarrow>
               (case rows of
                  [] \<Rightarrow> (Inr None, b\<lparr>pool := Some db'\<rparr>)
                | row # _ \<Rightarrow>
                    (case rowToEntry rt row of
                       Inl e \<Rightarrow>
                         (Inl (MemoryBackendError ''Failed to retrieve entry''
                                 [(''error'', Cause e)]),
                          b\<lparr>pool := Some db'\<rparr>)
                     | Inr entry \<Rightarrow> (Inr (Some entry), b\<lparr>pool := Some db'\<rparr>)))))"

text \<open>
  A time bound of the filter as a parameter: \<^verbatim>\<open>if (query.startTime)\<close> holds for every
  \<^verbatim>\<open>Date\<close>, and \<^verbatim>\<open>toISOString\<close> throws on the Invalid Date.
\<close>

definition date_param :: "int option option \<Rightarrow> js_error + int option" where
  "date_param d =
     (case d of
        None \<Rightarrow> Inr None
      | Some None \<Rightarrow> Inl (RangeError ''Invalid time value'')
      | Some (Some t) \<Rightarrow> Inr (Some t))"

text \<open>
  The conditions \<^verbatim>\<open>query\<close> collects (lines 160-204). Every test is on truthiness: an empty
  string, like an absent field, pushes nothing.
\<close>

definition query_conditions :: "MemoryQuery \<Rightarrow> js_error + cond list" where
  "query_conditions q =
     (case date_param (q_startTime q) of
        Inl e \<Rightarrow> Inl e
      | Inr st \<Rightarrow>
          (case date_param (q_endTime q) of
             Inl e \<Rightarrow> Inl e
           | Inr en \<Rightarrow>
               Inr ((if truthy (q_agentId q) then [AgentIdEq (text_of (q_agentId q))] else [])
                    @ (if truthy (q_sessionId q) then [SessionIdEq (text_of (q_sessionId q))] else [])
                    @ (if truthy (q_type q) then [TypeEq (text_of (q_type q))] else [])
                    @ (case st of None \<Rightarrow> [] | Some t \<Rightarrow> [TimestampGe t])
                    @ (case en of None \<Rightarrow> [] | Some t \<Rightarrow> [TimestampLe t])
                    @ (if truthy (q_search q) then [SearchLike (text_of (q_search q))] else [])
                    @ (case q_tags q of
                         None \<Rightarrow> []
                       | Some ts \<Rightarrow> if length ts > 0 then [TagsAny ts] else [])
                    @ (if truthy (q_namespace q)
                       then [NamespaceEq (text_of (q_namespace q))] else []))))"

text \<open>\<^verbatim>\<open>if (query.limit)\<close>, \<^verbatim>\<open>if (query.offset)\<close>: the number is passed on unless it is 0.\<close>

definition truthy_num :: "int option \<Rightarrow> int option" where
  "truthy_num v = (case v of None \<Rightarrow> None | Some n \<Rightarrow> if n = 0 then None else Some n)"

text \<open>\<^verbatim>\<open>query\<close> (lines 155-229).\<close>

definition query ::
  "runtime \<Rightarrow> MemoryQuery \<Rightarrow> PostgreSQLBackend
     \<Rightarrow> (js_error + MemoryEntry list) \<times> PostgreSQLBackend" where
  "query rt q b =
     (case pool b of
        None \<Rightarrow> (Inl (MemoryBackendError ''Database not initialized'' []), b)
      | Some db \<Rightarrow>
          (case query_conditions q of
             Inl e \<Rightarrow> (Inl e, b)
           | Inr conditions \<Rightarrow>
               (case pg_select_where rt conditions (truthy_num (q_limit q))
                       (truthy_num (q_offset q)) db of
                  (Inl e, db') \<Rightarrow>
                    (Inl (MemoryBackendError ''Failed to query entries'' [(''error'', Cause e)]),
                     b\<lparr>pool := Some db'\<rparr>)
                | (Inr rows, db') \<Rightarrow>
                    (case rows_to_entries rt rows of
                       Inl e \<Rightarrow>
                         (Inl (MemoryBackendError ''Failed to query entries''
                                 [(''error'', Cause e)]),
                          b\<lparr>pool := Some db'\<rparr>)
                     | Inr entries \<Rightarrow> (Inr entries, b\<lparr>pool := Some db'\<rparr>)))))"

text \<open>\<^verbatim>\<open>getAllEntries\<close> (lines 231-244).\<close>

definition getAllEntries ::
  "runtime \<Rightarrow> PostgreSQLBackend \<Rightarrow> (js_error + MemoryEntry list) \<times> PostgreSQLBackend" where
  "getAllEntries rt b =
     (case pool b of
        None \<Rightarrow> (Inl (MemoryBackendError ''Database not initialized'' []), b)
      | Some db \<Rightarrow>
          (case pg_select_where rt [] None None db of
             (Inl e, db') \<Rightarrow>
               (Inl (MemoryBackendError ''Failed to get all entries'' [(''error'', Cause e)]),
                b\<lparr>pool := Some db'\<rparr>)
           | (Inr rows, db') \<Rightarrow>
               (case rows_to_entries rt rows of
                  Inl e \<Rightarrow>
                    (Inl (MemoryBackendError ''Failed to get all entries''
                            [(''error'', Cause e)]),
                     b\<lparr>pool := Some db'\<rparr>)
                | Inr entries \<Rightarrow> (Inr entries, b\<lparr>pool := Some db'\<rparr>))))"

section \<open>Auxiliary notions and sample data\<close>

text \<open>
  The write set of a live batch: the entries \<^verbatim>\<open>pgEntries\<close> that \<^verbatim>\<open>migrateBatch\<close> hands to
  \<^verbatim>\<open>insertBatch\<close> (lines 213-223).
\<close>

definition survivors :: "runtime \<Rightarrow> sqlite_row list \<Rightarrow> MemoryEntry list" where
  "survivors rt batch =
     map the (filter (\<lambda>entry. entry \<noteq> None)
       (map (\<lambda>row. case convertEntry rt row of Inr e \<Rightarrow> Some e | Inl _ \<Rightarrow> None) batch))"

text \<open>An outcome list under which no statement throws.\<close>

definition fault_free :: "js_error option list \<Rightarrow> bool" where
  "fault_free os = (set os \<subseteq> {None})"

text \<open>A small runtime, rows and databases on which the operations are run below.\<close>

definition demo_rt :: runtime where
  "demo_rt =
     \<lparr>JSON_parse = (\<lambda>s. if s = ''[]'' then Some (JArr [])
                         else if s = ''{}'' then Some (JObj []) else None),
      Date_parse = (\<lambda>s. if s = ''2024-01-01T00:00:00.000Z'' then Some 1704067200000
                         else if s = ''2024-01-02T00:00:00.000Z'' then Some 1704153600000
                         else None),
      ilike = (\<lambda>t p. False),
      jsonb_text = (\<lambda>j. [])\<rparr>"

definition demo_row :: sqlite_row where
  "demo_row =
     \<lparr>r_id = Some ''e1'', r_agent_id = Some ''a1'', r_session_id = Some ''s1'',
      r_type = Some ''note'', r_content = Some ''hello'', r_context = Some ''{}'',
      r_timestamp = Some ''2024-01-01T00:00:00.000Z'', r_tags = Some ''[]'',
      r_version = Some 1, r_parent_id = None, r_metadata = None\<rparr>"

definition demo_row_no_content :: sqlite_row where
  "demo_row_no_content =
     demo_row\<lparr>r_id := Some ''e2'', r_content := None,
               r_timestamp := Some ''2024-01-02T00:00:00.000Z''\<rparr>"

definition big_source :: sqlite_db where
  "big_source = \<lparr>s_table = replicate 2500 demo_row, s_outcomes = [], s_log = []\<rparr>"

definition small_source :: sqlite_db where
  "small_source = \<lparr>s_table = [demo_row, demo_row_no_content], s_outcomes = [], s_log = []\<rparr>"

definition empty_target :: pg_db where
  "empty_target = \<lparr>has_schema = True, memory_entries = [], pg_outcomes = [], pg_log = []\<rparr>"

definition demo_pg_row :: pg_row where
  "demo_pg_row =
     \<lparr>p_id = ''e1'', p_agent_id = ''a1'', p_session_id = ''s1'', p_type = ''note'',
      p_content = ''hello'', p_context = JObj [], p_timestamp = 1704067200000,
      p_tags = JArr [JStr ''x''], p_version = 1, p_parent_id = None, p_metadata = None\<rparr>"

definition demo_target :: pg_db where
  "demo_target =
     \<lparr>has_schema = True, memory_entries = [demo_pg_row], pg_outcomes = [], pg_log = []\<rparr>"

definition failing_target :: pg_db where
  "failing_target =
     \<lparr>has_schema = True, memory_entries = [],
      pg_outcomes = [Some (DriverError ''connection terminated'')], pg_log = []\<rparr>"

definition faulty_source :: sqlite_db where
  "faulty_source =
     small_source\<lparr>s_outcomes := [None, None, Some (DriverError ''disk I/O error'')]\<rparr>"

definition one_row_source :: sqlite_db where
  "one_row_source =
     \<lparr>s_table = [demo_row], s_outcomes = [None, Some (DriverError ''disk I/O error'')],
      s_log = []\<rparr>"

definition refusing_world :: world where
  "refusing_world =
     \<lparr>sqlite_available = True, sqlite_file = Inr small_source, pg_server = failing_target\<rparr>"

definition empty_query :: MemoryQuery where
  "empty_query =
     \<lparr>q_agentId = None, q_sessionId = None, q_type = None, q_startTime = None,
      q_endTime = None, q_search = None, q_tags = None, q_namespace = None,
      q_limit = None, q_offset = None\<rparr>"

definition demo_entry :: MemoryEntry where
  "demo_entry =
     \<lparr>e_id = ''e1'', e_agentId = ''a1'', e_sessionId = ''s1'', e_type = ''note'',
      e_content = ''hello'', e_context = JObj [], e_timestamp = Some 1704067200000,
      e_tags = JArr [JStr ''x''], e_version = 1, e_parentId = None, e_metadata = None\<rparr>"

definition tagged_target :: pg_db where
  "tagged_target =
     \<lparr>has_schema = True,
      memory_entries =
        [demo_pg_row,
         demo_pg_row\<lparr>p_id := ''e2'', p_tags := JArr [JStr ''z''], p_timestamp := 1704067200001\<rparr>,
         demo_pg_row\<lparr>p_id := ''e3'', p_agent_id := ''a2'', p_tags := JArr [JStr ''x'', JStr ''y''],
                      p_timestamp := 1704067200002\<rparr>,
         demo_pg_row\<lparr>p_id := ''e4'', p_tags := JArr [JStr ''q'', JStr ''y''],
                      p_timestamp := 1704067200003\<rparr>],
      pg_outcomes = [], pg_log = []\<rparr>"

definition a1_xy :: MemoryQuery where
  "a1_xy = empty_query\<lparr>q_agentId := Some ''a1'', q_tags := Some [''x'', ''y'']\<rparr>"

section \<open>Facts about the model\<close>

declare migrate_loop.simps [simp del]

lemma length_by_timestamp: "length (by_timestamp rows) = length rows"
  by (simp add: by_timestamp_def)

lemma filter_by_timestamp: "length (filter P (by_timestamp rows)) = length (filter P rows)"
proof -
  have "mset (filter P (by_timestamp rows)) = mset (filter P rows)"
    by (simp add: by_timestamp_def)
  then show ?thesis by (metis size_mset)
qed

lemma sqlite_all_Inr:
  assumes "sqlite_all lim off db = (Inr batch, db')"
  shows "batch = take lim (drop off (by_timestamp (s_table db)))"
    and "s_table db' = s_table db"
    and "s_log db' = s_log db @ [PageQuery lim off (length batch)]"
  using assms by (auto simp: sqlite_all_def Let_def split: prod.splits option.splits)

lemma sqlite_count_Inr:
  assumes "sqlite_count db = (Inr n, db')"
  shows "n = length (s_table db)"
    and "s_table db' = s_table db"
    and "s_log db' = s_log db @ [CountQuery n]"
  using assms by (auto simp: sqlite_count_def split: prod.splits option.splits)

lemma foldl_validate_step:
  "foldl validate_step st batch =
     st\<lparr>batchMigrated := batchMigrated st + length (filter (\<lambda>r. \<not> isl (validateEntry r)) batch),
        batchSkipped := batchSkipped st + length (filter (\<lambda>r. isl (validateEntry r)) batch)\<rparr>"
proof (induction batch arbitrary: st)
  case Nil
  show ?case by simp
next
  case (Cons row rest)
  have "foldl validate_step st (row # rest) = foldl validate_step (validate_step st row) rest"
    by simp
  also have "\<dots> = (validate_step st row)
      \<lparr>batchMigrated := batchMigrated (validate_step st row)
          + length (filter (\<lambda>r. \<not> isl (validateEntry r)) rest),
       batchSkipped := batchSkipped (validate_step st row)
          + length (filter (\<lambda>r. isl (validateEntry r)) rest)\<rparr>"
    by (rule Cons.IH)
  also have "\<dots> = st
      \<lparr>batchMigrated := batchMigrated st
          + length (filter (\<lambda>r. \<not> isl (validateEntry r)) (row # rest)),
       batchSkipped := batchSkipped st
          + length (filter (\<lambda>r. isl (validateEntry r)) (row # rest))\<rparr>"
    by (cases "validateEntry row") (simp_all add: validate_step_def)
  finally show ?case .
qed

lemma sum_length_filter_compl':
  "length (filter (\<lambda>x. \<not> P x) xs) + length (filter P xs) = length xs"
  using sum_length_filter_compl [of P xs] by simp

lemma migrateBatch_dry:
  assumes "migrateBatch rt batch True pdb = (bst, pdb')"
  shows "batchMigrated bst = length (filter (\<lambda>r. \<not> isl (validateEntry r)) batch)"
    and "batchSkipped bst = length (filter (\<lambda>r. isl (validateEntry r)) batch)"
    and "batchErrors bst = 0"
    and "pdb' = pdb"
  using assms by (auto simp: migrateBatch_def foldl_validate_step)

lemma length_survivors:
  "length (survivors rt batch) = length (filter (\<lambda>r. \<not> isl (convertEntry rt r)) batch)"
  by (induction batch) (auto simp: survivors_def split: sum.splits)

lemma length_failed:
  "length (filter (\<lambda>entry. entry = None)
       (map (\<lambda>row. case convertEntry rt row of Inr e \<Rightarrow> Some e | Inl _ \<Rightarrow> None) batch))
   = length (filter (\<lambda>r. isl (convertEntry rt r)) batch)"
  by (induction batch) (auto split: sum.splits)

lemma migrateBatch_live_unfold:
  "migrateBatch rt batch False pdb =
     (if survivors rt batch = []
      then (\<lparr>batchMigrated = 0,
              batchSkipped = length (filter (\<lambda>r. isl (convertEntry rt r)) batch),
              batchErrors = 0\<rparr>, pdb)
      else (case insertBatch (survivors rt batch) pdb of
              (Inr u, pdb') \<Rightarrow>
                (\<lparr>batchMigrated = length (survivors rt batch),
                  batchSkipped = length (filter (\<lambda>r. isl (convertEntry rt r)) batch),
                  batchErrors = 0\<rparr>, pdb')
            | (Inl e, pdb') \<Rightarrow>
                (\<lparr>batchMigrated = 0,
                  batchSkipped = length (filter (\<lambda>r. isl (convertEntry rt r)) batch),
                  batchErrors = length (survivors rt batch)\<rparr>, pdb')))"
proof -
  obtain res pdb1 where ib: "insertBatch (survivors rt batch) pdb = (res, pdb1)"
    by (cases "insertBatch (survivors rt batch) pdb")
  show ?thesis
    unfolding migrateBatch_def Let_def survivors_def [symmetric] length_failed
    using ib by (cases res) simp_all
qed

lemma migrateBatch_live:
  assumes "migrateBatch rt batch False pdb = (bst, pdb')"
  shows "batchSkipped bst = length (filter (\<lambda>r. isl (convertEntry rt r)) batch)"
    and "batchMigrated bst + batchErrors bst
           = length (filter (\<lambda>r. \<not> isl (convertEntry rt r)) batch)"
proof -
  obtain res pdb1 where ib: "insertBatch (survivors rt batch) pdb = (res, pdb1)"
    by (cases "insertBatch (survivors rt batch) pdb")
  show "batchSkipped bst = length (filter (\<lambda>r. isl (convertEntry rt r)) batch)"
    using assms ib unfolding migrateBatch_live_unfold
    by (cases res) (auto split: if_splits)
  show "batchMigrated bst + batchErrors bst
           = length (filter (\<lambda>r. \<not> isl (convertEntry rt r)) batch)"
    using assms ib length_survivors [of rt batch] unfolding migrateBatch_live_unfold
    by (cases res) (auto split: if_splits)
qed

lemma validate_missing_content: "\<not> truthy (r_content row) \<Longrightarrow> isl (validateEntry row)"
  by (simp add: validateEntry_def)

lemma convert_missing_content: "\<not> truthy (r_content row) \<Longrightarrow> isl (convertEntry rt row)"
  by (simp add: convertEntry_def validateEntry_def)

lemma filter_le_filter:
  "(\<And>x. P x \<Longrightarrow> Q x) \<Longrightarrow> length (filter P xs) \<le> length (filter Q xs)"
  by (induction xs) auto

lemma migrateBatch_counts:
  assumes "migrateBatch rt batch dryRun pdb = (bst, pdb')"
  shows "batchMigrated bst + batchSkipped bst + batchErrors bst = length batch"
proof (cases dryRun)
  case True
  with assms show ?thesis
    using sum_length_filter_compl' [of "\<lambda>r. isl (validateEntry r)" batch]
    by (simp add: migrateBatch_dry)
next
  case False
  with assms have "batchSkipped bst = length (filter (\<lambda>r. isl (convertEntry rt r)) batch)"
    and "batchMigrated bst + batchErrors bst
           = length (filter (\<lambda>r. \<not> isl (convertEntry rt r)) batch)"
    by (simp_all add: migrateBatch_live)
  with sum_length_filter_compl' [of "\<lambda>r. isl (convertEntry rt r)" batch]
  show ?thesis by linarith
qed

lemma migrateBatch_skipped:
  assumes "migrateBatch rt batch dryRun pdb = (bst, pdb')"
  shows "length (filter (\<lambda>r. \<not> truthy (r_content r)) batch) \<le> batchSkipped bst"
proof (cases dryRun)
  case True
  with assms show ?thesis
    by (simp add: migrateBatch_dry filter_le_filter validate_missing_content)
next
  case False
  with assms show ?thesis
    by (simp add: migrateBatch_live filter_le_filter convert_missing_content)
qed

lemma migrateBatch_present:
  assumes "migrateBatch rt batch dryRun pdb = (bst, pdb')"
  shows "batchMigrated bst + batchErrors bst \<le> length (filter (\<lambda>r. truthy (r_content r)) batch)"
proof -
  have "batchMigrated bst + batchErrors bst + batchSkipped bst = length batch"
    using migrateBatch_counts [OF assms] by simp
  moreover have "length (filter (\<lambda>r. \<not> truthy (r_content r)) batch)
                  + length (filter (\<lambda>r. truthy (r_content r)) batch) = length batch"
    by (rule sum_length_filter_compl')
  moreover note migrateBatch_skipped [OF assms]
  ultimately show ?thesis by linarith
qed


lemma migrate_loop_done:
  "\<not> offset < totalEntries stats \<Longrightarrow>
     migrate_loop rt dryRun bs offset stats sdb pdb = (Inr stats, sdb, pdb)"
  by (simp add: migrate_loop.simps)

text \<open>one turn of the loop that ends in a normal return\<close>
lemma migrate_loop_step:
  assumes run: "migrate_loop rt dryRun bs offset stats sdb pdb = (Inr st, sdb', pdb')"
    and lt: "offset < totalEntries stats"
    and bs: "0 < bs"
    and total: "totalEntries stats = length (s_table sdb)"
  obtains batch sdb1 bst pdb1 where
    "sqlite_all bs offset sdb = (Inr batch, sdb1)"
    "batch \<noteq> []"
    "migrateBatch rt batch dryRun pdb = (bst, pdb1)"
    "migrate_loop rt dryRun bs (offset + bs)
       (stats\<lparr>migratedEntries := migratedEntries stats + batchMigrated bst,
              skippedEntries := skippedEntries stats + batchSkipped bst,
              errors := errors stats + batchErrors bst\<rparr>) sdb1 pdb1 = (Inr st, sdb', pdb')"
proof -
  obtain r sdb1 where page: "sqlite_all bs offset sdb = (r, sdb1)"
    by (cases "sqlite_all bs offset sdb")
  from run lt page obtain batch where r: "r = Inr batch"
    by (cases r) (simp_all add: migrate_loop.simps)
  from page r have b: "batch = take bs (drop offset (by_timestamp (s_table sdb)))"
    by (simp add: sqlite_all_Inr)
  from lt total have "offset < length (by_timestamp (s_table sdb))"
    by (simp add: length_by_timestamp)
  with bs b have ne: "batch \<noteq> []" by simp
  obtain bst pdb1 where mb: "migrateBatch rt batch dryRun pdb = (bst, pdb1)"
    by (cases "migrateBatch rt batch dryRun pdb")
  from run lt page r ne mb
  have "migrate_loop rt dryRun bs (offset + bs)
       (stats\<lparr>migratedEntries := migratedEntries stats + batchMigrated bst,
              skippedEntries := skippedEntries stats + batchSkipped bst,
              errors := errors stats + batchErrors bst\<rparr>) sdb1 pdb1 = (Inr st, sdb', pdb')"
    by (subst (asm) migrate_loop.simps) simp
  with page r ne mb show thesis by (intro that) simp_all
qed

lemma filter_drop_split:
  "length (filter P (drop off xs))
     = length (filter P (take bs (drop off xs))) + length (filter P (drop (off + bs) xs))"
proof -
  have "drop off xs = take bs (drop off xs) @ drop bs (drop off xs)"
    by (simp only: append_take_drop_id)
  then have "filter P (drop off xs)
      = filter P (take bs (drop off xs)) @ filter P (drop bs (drop off xs))"
    by (metis filter_append)
  then show ?thesis by (simp add: add.commute)
qed

lemma migrate_loop_counts:
  assumes "migrate_loop rt dryRun bs offset stats sdb pdb = (Inr st, sdb', pdb')"
    and "0 < bs"
    and "totalEntries stats = length (s_table sdb)"
  shows "totalEntries st = totalEntries stats
    \<and> migratedEntries st + skippedEntries st + errors st
          = migratedEntries stats + skippedEntries stats + errors stats
            + (length (s_table sdb) - offset)
    \<and> skippedEntries stats
          + length (filter (\<lambda>r. \<not> truthy (r_content r)) (drop offset (by_timestamp (s_table sdb))))
          \<le> skippedEntries st
    \<and> migratedEntries st + errors st
          \<le> migratedEntries stats + errors stats
            + length (filter (\<lambda>r. truthy (r_content r)) (drop offset (by_timestamp (s_table sdb))))"
  using assms
proof (induction rt dryRun bs offset stats sdb pdb rule: migrate_loop.induct)
  case (1 rt dryRun bs offset stats sdb pdb)
  note run = "1.prems"(1) and bs = "1.prems"(2) and total = "1.prems"(3)
  let ?sorted = "by_timestamp (s_table sdb)"
  let ?missing = "\<lambda>r. \<not> truthy (r_content r)"
  let ?present = "\<lambda>r. truthy (r_content r)"
  show ?case
  proof (cases "offset < totalEntries stats")
    case False
    with run have "st = stats" by (simp add: migrate_loop_done)
    with False total show ?thesis by (simp add: length_by_timestamp)
  next
    case True
    from run True bs total obtain batch sdb1 bst pdb1 where
      page: "sqlite_all bs offset sdb = (Inr batch, sdb1)"
      and ne: "batch \<noteq> []"
      and mb: "migrateBatch rt batch dryRun pdb = (bst, pdb1)"
      and rest: "migrate_loop rt dryRun bs (offset + bs)
         (stats\<lparr>migratedEntries := migratedEntries stats + batchMigrated bst,
                skippedEntries := skippedEntries stats + batchSkipped bst,
                errors := errors stats + batchErrors bst\<rparr>) sdb1 pdb1 = (Inr st, sdb', pdb')"
      by (rule migrate_loop_step)
    let ?stats1 = "stats\<lparr>migratedEntries := migratedEntries stats + batchMigrated bst,
                skippedEntries := skippedEntries stats + batchSkipped bst,
                errors := errors stats + batchErrors bst\<rparr>"
    from page have tbl: "s_table sdb1 = s_table sdb"
      and b: "batch = take bs (drop offset ?sorted)"
      by (simp_all add: sqlite_all_Inr)
    from ne have ne': "length batch \<noteq> 0" by simp
    have total1: "totalEntries ?stats1 = length (s_table sdb1)"
      using total tbl by simp
    note IH = "1.IH" [OF True page [symmetric] refl ne' mb [symmetric] rest bs total1]
    have len: "length batch + (length (s_table sdb) - (offset + bs)) = length (s_table sdb) - offset"
      using b True total by (simp add: length_by_timestamp min_def)
    have cnt: "batchMigrated bst + batchSkipped bst + batchErrors bst = length batch"
      using mb by (rule migrateBatch_counts)
    have sk: "length (filter ?missing batch) \<le> batchSkipped bst"
      using mb by (rule migrateBatch_skipped)
    have pr: "batchMigrated bst + batchErrors bst \<le> length (filter ?present batch)"
      using mb by (rule migrateBatch_present)
    have sp1: "length (filter ?missing (drop offset ?sorted))
       = length (filter ?missing batch) + length (filter ?missing (drop (offset + bs) ?sorted))"
      unfolding b by (rule filter_drop_split)
    have sp2: "length (filter ?present (drop offset ?sorted))
       = length (filter ?present batch) + length (filter ?present (drop (offset + bs) ?sorted))"
      unfolding b by (rule filter_drop_split)
    from IH have c1: "totalEntries st = totalEntries stats" by simp
    from IH len cnt tbl have c2: "migratedEntries st + skippedEntries st + errors st
          = migratedEntries stats + skippedEntries stats + errors stats
            + (length (s_table sdb) - offset)" by simp
    from IH sk sp1 tbl have c3:
      "skippedEntries stats + length (filter ?missing (drop offset ?sorted)) \<le> skippedEntries st"
      by simp
    from IH pr sp2 tbl have c4: "migratedEntries st + errors st
          \<le> migratedEntries stats + errors stats + length (filter ?present (drop offset ?sorted))"
      by simp
    from c1 c2 c3 c4 show ?thesis by blast
  qed
qed


lemma fault_free_next:
  "fault_free os \<Longrightarrow> \<exists>rest. next_outcome os = (None, rest) \<and> fault_free rest"
  by (cases os) (auto simp: fault_free_def next_outcome_def)

lemma sqlite_all_fault_free:
  assumes "fault_free (s_outcomes sdb)"
  shows "\<exists>batch sdb1. sqlite_all lim off sdb = (Inr batch, sdb1) \<and> fault_free (s_outcomes sdb1)"
proof -
  from fault_free_next [OF assms] obtain rest
    where "next_outcome (s_outcomes sdb) = (None, rest)" and "fault_free rest" by blast
  then show ?thesis by (simp add: sqlite_all_def Let_def)
qed

lemma sqlite_count_fault_free:
  assumes "fault_free (s_outcomes sdb)"
  shows "\<exists>sdb1. sqlite_count sdb = (Inr (length (s_table sdb)), sdb1)
           \<and> fault_free (s_outcomes sdb1)"
proof -
  from fault_free_next [OF assms] obtain rest
    where "next_outcome (s_outcomes sdb) = (None, rest)" and "fault_free rest" by blast
  then show ?thesis by (simp add: sqlite_count_def)
qed

lemma migrate_loop_returns:
  assumes "fault_free (s_outcomes sdb)"
  shows "\<exists>st sdb' pdb'. migrate_loop rt dryRun bs offset stats sdb pdb = (Inr st, sdb', pdb')"
  using assms
proof (induction rt dryRun bs offset stats sdb pdb rule: migrate_loop.induct)
  case (1 rt dryRun bs offset stats sdb pdb)
  show ?case
  proof (cases "offset < totalEntries stats")
    case False
    then show ?thesis by (simp add: migrate_loop_done)
  next
    case True
    from sqlite_all_fault_free [OF "1.prems"] obtain batch sdb1
      where page: "sqlite_all bs offset sdb = (Inr batch, sdb1)"
        and ff: "fault_free (s_outcomes sdb1)" by blast
    show ?thesis
    proof (cases "length batch = 0")
      case True
      with \<open>offset < totalEntries stats\<close> page show ?thesis
        by (subst migrate_loop.simps) simp
    next
      case False
      obtain bst pdb1 where mb: "migrateBatch rt batch dryRun pdb = (bst, pdb1)"
        by (cases "migrateBatch rt batch dryRun pdb")
      from "1.IH" [OF True page [symmetric] refl False mb [symmetric] ff]
      obtain st sdb' pdb' where "migrate_loop rt dryRun bs (offset + bs)
         (stats\<lparr>migratedEntries := migratedEntries stats + batchMigrated bst,
                skippedEntries := skippedEntries stats + batchSkipped bst,
                errors := errors stats + batchErrors bst\<rparr>) sdb1 pdb1 = (Inr st, sdb', pdb')"
        by blast
      with True page False mb show ?thesis
        by (subst migrate_loop.simps) simp
    qed
  qed
qed

text \<open>what a normal return of the try block went through\<close>
lemma migrate_try_Inr:
  assumes "migrate_try rt t0 t1 dryRun bs sdb pdb = (Inr st, sdb', pdb')"
    and "s_table sdb \<noteq> []"
  obtains sdb1 pdb1 st' where
    "sqlite_count sdb = (Inr (length (s_table sdb)), sdb1)"
    "migrate_loop rt dryRun bs 0
       \<lparr>totalEntries = length (s_table sdb), migratedEntries = 0, skippedEntries = 0,
        errors = 0, duration = 0\<rparr> sdb1 pdb1 = (Inr st', sdb', pdb')"
    "st = st'\<lparr>duration := t1 - t0\<rparr>"
proof -
  obtain r sdb1 where cnt: "sqlite_count sdb = (r, sdb1)" by (cases "sqlite_count sdb")
  from assms(1) cnt obtain n where r: "r = Inr n"
    by (cases r) (simp_all add: migrate_try_def)
  with cnt have n: "n = length (s_table sdb)" by (simp add: sqlite_count_Inr)
  with assms(2) have n0: "n \<noteq> 0" by simp
  obtain d pdb1 where ddl:
    "(if \<not> dryRun then createPostgreSQLTables pdb else (Inr (), pdb)) = (d, pdb1)"
    by (cases "if \<not> dryRun then createPostgreSQLTables pdb else (Inr (), pdb)")
  from assms(1) cnt r n0 ddl obtain u where d: "d = Inr u"
    by (cases d) (simp_all add: migrate_try_def)
  obtain l sdb2 pdb2 where loop: "migrate_loop rt dryRun bs 0
       \<lparr>totalEntries = n, migratedEntries = 0, skippedEntries = 0,
        errors = 0, duration = 0\<rparr> sdb1 pdb1 = (l, sdb2, pdb2)"
    by (metis prod_cases3)
  from assms(1) cnt r n0 ddl d loop obtain st' where l: "l = Inr st'"
    by (cases l) (auto simp: migrate_try_def)
  from assms(1) cnt r n0 ddl d loop l
  have "st = st'\<lparr>duration := t1 - t0\<rparr>" "sdb2 = sdb'" "pdb2 = pdb'"
    by (simp_all add: migrate_try_def)
  with cnt r n loop l show thesis by (intro that [of sdb1 pdb1 st']) simp_all
qed

lemma migrate_Inr:
  assumes "migrate rt t0 t1 dryRun m = (Inr st, m')"
    and "sqliteDb m = Some sdb" and "pgPool m = Some pdb"
  obtains sdb' pdb' where
    "migrate_try rt t0 t1 dryRun (batchSize m) sdb pdb = (Inr st, sdb', pdb')"
    "m' = m\<lparr>sqliteDb := Some sdb', pgPool := Some pdb'\<rparr>"
proof -
  obtain r sdb' pdb' where t: "migrate_try rt t0 t1 dryRun (batchSize m) sdb pdb = (r, sdb', pdb')"
    by (metis prod_cases3)
  from assms t have "r = Inr st" "m' = m\<lparr>sqliteDb := Some sdb', pgPool := Some pdb'\<rparr>"
    by (cases r; auto simp: migrate_def)+
  with t show thesis by (intro that [of sdb' pdb']) simp_all
qed

text \<open>one turn of the loop, as the source database sees it\<close>
lemma migrate_loop_page:
  assumes run: "migrate_loop rt dryRun bs offset stats sdb pdb = (Inr st, sdb', pdb')"
    and lt: "offset < totalEntries stats"
    and bs: "0 < bs"
    and total: "totalEntries stats = length (s_table sdb)"
  obtains stats1 sdb1 pdb1 where
    "s_table sdb1 = s_table sdb"
    "s_log sdb1 = s_log sdb @ [PageQuery bs offset (min bs (length (s_table sdb) - offset))]"
    "totalEntries stats1 = totalEntries stats"
    "migrate_loop rt dryRun bs (offset + bs) stats1 sdb1 pdb1 = (Inr st, sdb', pdb')"
proof -
  from run lt bs total obtain batch sdb1 bst pdb1 where
    page: "sqlite_all bs offset sdb = (Inr batch, sdb1)"
    and "batch \<noteq> []"
    and "migrateBatch rt batch dryRun pdb = (bst, pdb1)"
    and rest: "migrate_loop rt dryRun bs (offset + bs)
       (stats\<lparr>migratedEntries := migratedEntries stats + batchMigrated bst,
              skippedEntries := skippedEntries stats + batchSkipped bst,
              errors := errors stats + batchErrors bst\<rparr>) sdb1 pdb1 = (Inr st, sdb', pdb')"
    by (rule migrate_loop_step)
  from page have "batch = take bs (drop offset (by_timestamp (s_table sdb)))"
    by (simp add: sqlite_all_Inr)
  then have "length batch = min bs (length (s_table sdb) - offset)"
    by (simp add: length_by_timestamp min.commute)
  with page have "s_log sdb1 = s_log sdb @ [PageQuery bs offset (min bs (length (s_table sdb) - offset))]"
    and "s_table sdb1 = s_table sdb"
    by (simp_all add: sqlite_all_Inr)
  with rest show thesis by (intro that) simp_all
qed



lemma pg_send_ok:
  "fst (next_outcome (pg_outcomes db)) = None \<Longrightarrow>
     pg_send stmt db
       = (None, db\<lparr>pg_outcomes := snd (next_outcome (pg_outcomes db)),
                    pg_log := pg_log db @ [stmt]\<rparr>)"
  by (cases "next_outcome (pg_outcomes db)") (simp add: pg_send_def)

lemma migrate_returns:
  assumes "sqliteDb m = Some sdb" and "pgPool m = Some pdb"
    and "fault_free (s_outcomes sdb)"
    and "dryRun \<or> fst (next_outcome (pg_outcomes pdb)) = None"
  shows "\<exists>st m'. migrate rt t0 t1 dryRun m = (Inr st, m')"
proof -
  from sqlite_count_fault_free [OF assms(3)] obtain sdb1
    where cnt: "sqlite_count sdb = (Inr (length (s_table sdb)), sdb1)"
      and ff: "fault_free (s_outcomes sdb1)" by blast
  define d where "d = (if \<not> dryRun then createPostgreSQLTables pdb else (Inr (), pdb))"
  from assms(4) obtain pdb1 where ddl: "d = (Inr (), pdb1)"
    unfolding d_def
    by (cases dryRun)
      (simp_all add: createPostgreSQLTables_def pg_create_tables_def pg_send_ok)
  define s0 where "s0 = \<lparr>totalEntries = length (s_table sdb), migratedEntries = 0,
        skippedEntries = 0, errors = 0, duration = 0\<rparr>"
  from migrate_loop_returns [OF ff] obtain st sdb2 pdb2
    where loop: "migrate_loop rt dryRun (batchSize m) 0 s0 sdb1 pdb1 = (Inr st, sdb2, pdb2)"
    by blast
  have unfold: "migrate_try rt t0 t1 dryRun (batchSize m) sdb pdb =
      (if totalEntries s0 = 0 then (Inr (s0\<lparr>duration := t1 - t0\<rparr>), sdb1, pdb)
       else (case d of
               (Inl e, pdb1) \<Rightarrow> (Inl (e, s0), sdb1, pdb1)
             | (Inr _, pdb1) \<Rightarrow>
                 (case migrate_loop rt dryRun (batchSize m) 0 s0 sdb1 pdb1 of
                    (Inl e, sdb2, pdb2) \<Rightarrow> (Inl e, sdb2, pdb2)
                  | (Inr stats', sdb2, pdb2) \<Rightarrow>
                      (Inr (stats'\<lparr>duration := t1 - t0\<rparr>), sdb2, pdb2))))"
    unfolding migrate_try_def d_def s0_def Let_def using cnt
    by (simp split: prod.splits sum.splits)
  have "\<exists>st sdb' pdb'.
      migrate_try rt t0 t1 dryRun (batchSize m) sdb pdb = (Inr st, sdb', pdb')"
    unfolding unfold using ddl loop by (cases "totalEntries s0 = 0") simp_all
  then show ?thesis using assms(1,2) by (auto simp: migrate_def)
qed

lemma migrate_loop_dry_run_target:
  "migrate_loop rt True bs offset stats sdb pdb = (r, sdb', pdb') \<Longrightarrow> pdb' = pdb"
proof (induction rt "True" bs offset stats sdb pdb rule: migrate_loop.induct)
  case (1 rt bs offset stats sdb pdb)
  show ?case
  proof (cases "offset < totalEntries stats")
    case False
    with "1.prems" show ?thesis by (simp add: migrate_loop_done)
  next
    case True
    obtain p sdb1 where page: "sqlite_all bs offset sdb = (p, sdb1)"
      by (cases "sqlite_all bs offset sdb")
    show ?thesis
    proof (cases p)
      case (Inl e)
      with "1.prems" True page show ?thesis by (simp add: migrate_loop.simps)
    next
      case (Inr batch)
      show ?thesis
      proof (cases "length batch = 0")
        case True
        with "1.prems" \<open>offset < totalEntries stats\<close> page Inr show ?thesis
          by (simp add: migrate_loop.simps)
      next
        case False
        obtain bst pdb1 where mb: "migrateBatch rt batch True pdb = (bst, pdb1)"
          by (cases "migrateBatch rt batch True pdb")
        then have same: "pdb1 = pdb" by (rule migrateBatch_dry)
        from "1.prems" True page Inr False mb
        have "migrate_loop rt True bs (offset + bs)
           (stats\<lparr>migratedEntries := migratedEntries stats + batchMigrated bst,
                  skippedEntries := skippedEntries stats + batchSkipped bst,
                  errors := errors stats + batchErrors bst\<rparr>) sdb1 pdb1 = (r, sdb', pdb')"
          by (subst (asm) migrate_loop.simps) simp
        with "1.hyps" [OF True _ _ False mb [symmetric]] page Inr same show ?thesis
          by simp
      qed
    qed
  qed
qed

lemma migrate_try_dry_run_target:
  assumes "migrate_try rt t0 t1 True bs sdb pdb = (r, sdb', pdb')"
  shows "pdb' = pdb"
proof -
  obtain c sdb1 where cnt: "sqlite_count sdb = (c, sdb1)" by (cases "sqlite_count sdb")
  show ?thesis
  proof (cases c)
    case (Inl e)
    with assms cnt show ?thesis by (simp add: migrate_try_def)
  next
    case (Inr n)
    show ?thesis
    proof (cases "n = 0")
      case True
      with assms cnt Inr show ?thesis by (simp add: migrate_try_def)
    next
      case False
      obtain l sdb2 pdb2 where loop: "migrate_loop rt True bs 0
         \<lparr>totalEntries = n, migratedEntries = 0, skippedEntries = 0,
          errors = 0, duration = 0\<rparr> sdb1 pdb = (l, sdb2, pdb2)"
        by (metis prod_cases3)
      then have "pdb2 = pdb" by (rule migrate_loop_dry_run_target)
      with assms cnt Inr False loop show ?thesis
        by (cases l) (auto simp: migrate_try_def)
    qed
  qed
qed

lemma pg_upsert_Inl:
  "pg_upsert rows db = (Inl e, db') \<Longrightarrow> memory_entries db' = memory_entries db \<and> has_schema db' = has_schema db"
  by (auto simp: pg_upsert_def pg_on_table_def pg_send_def next_outcome_def
           split: prod.splits option.splits list.splits if_splits)

lemma insertBatch_Inl:
  assumes "insertBatch entries pdb = (Inl e, pdb')"
  shows "entries \<noteq> []" and "memory_entries pdb' = memory_entries pdb"
proof -
  from assms show "entries \<noteq> []" by (auto simp: insertBatch_def)
  from assms show "memory_entries pdb' = memory_entries pdb"
    by (auto simp: insertBatch_def dest: pg_upsert_Inl split: if_splits sum.splits)
qed

lemma demo_convert: "convertEntry demo_rt demo_row = Inr
   \<lparr>e_id = ''e1'', e_agentId = ''a1'', e_sessionId = ''s1'', e_type = ''note'',
    e_content = ''hello'', e_context = JObj [], e_timestamp = Some 1704067200000,
    e_tags = JArr [], e_version = 1, e_parentId = None, e_metadata = None\<rparr>"
  by (simp add: convertEntry_def validateEntry_def demo_row_def demo_rt_def truthy_def
        parse_if_string_def text_of_def)

lemma demo_convert_no_content:
  "convertEntry demo_rt demo_row_no_content = Inl (Error ''Missing required fields'')"
  by (simp add: convertEntry_def validateEntry_def demo_row_no_content_def demo_row_def truthy_def)

lemma demo_survivors: "survivors demo_rt [demo_row, demo_row_no_content] =
   [\<lparr>e_id = ''e1'', e_agentId = ''a1'', e_sessionId = ''s1'', e_type = ''note'',
    e_content = ''hello'', e_context = JObj [], e_timestamp = Some 1704067200000,
    e_tags = JArr [], e_version = 1, e_parentId = None, e_metadata = None\<rparr>]"
  by (simp add: survivors_def demo_convert demo_convert_no_content)

lemma demo_insert_fails:
  "insertBatch (survivors demo_rt [demo_row, demo_row_no_content]) failing_target
     = (Inl (DriverError ''connection terminated''),
        failing_target\<lparr>pg_outcomes := [],
                        pg_log := [Upsert [demo_pg_row\<lparr>p_tags := JArr []\<rparr>]]\<rparr>)"
  by (simp add: demo_survivors insertBatch_def entry_params_def pg_upsert_def pg_on_table_def
        pg_send_def next_outcome_def failing_target_def demo_pg_row_def truthy_def)

lemma migrate_try_empty:
  assumes "migrate_try rt t0 t1 dryRun bs sdb pdb = (Inr st, sdb', pdb')"
    and "s_table sdb = []"
  shows "migratedEntries st = 0 \<and> skippedEntries st = 0 \<and> errors st = 0"
proof -
  obtain r sdb1 where cnt: "sqlite_count sdb = (r, sdb1)" by (cases "sqlite_count sdb")
  from assms(1) cnt obtain n where r: "r = Inr n"
    by (cases r) (simp_all add: migrate_try_def)
  with cnt assms(2) have "n = 0" using sqlite_count_Inr(1) [of sdb n sdb1] by simp
  with assms(1) cnt r show ?thesis by (auto simp: migrate_try_def)
qed

lemma migrate_counts_content:
  assumes db: "sqliteDb m = Some sdb" "pgPool m = Some pdb"
    and bs: "0 < batchSize m"
    and run: "migrate rt t0 t1 dryRun m = (Inr st, m')"
  shows "length (filter (\<lambda>r. \<not> truthy (r_content r)) (s_table sdb)) \<le> skippedEntries st
       \<and> migratedEntries st + errors st
            \<le> length (filter (\<lambda>r. truthy (r_content r)) (s_table sdb))"
proof -
  from run db obtain sdb' pdb' where
    t: "migrate_try rt t0 t1 dryRun (batchSize m) sdb pdb = (Inr st, sdb', pdb')"
    by (rule migrate_Inr)
  show ?thesis
  proof (cases "s_table sdb = []")
    case True
    with migrate_try_empty [OF t] show ?thesis by simp
  next
    case False
    define s0 where "s0 = \<lparr>totalEntries = length (s_table sdb), migratedEntries = 0,
        skippedEntries = 0, errors = 0, duration = 0\<rparr>"
    from t False obtain sdb0 pdb0 st' where
      cnt: "sqlite_count sdb = (Inr (length (s_table sdb)), sdb0)"
      and loop: "migrate_loop rt dryRun (batchSize m) 0 s0 sdb0 pdb0 = (Inr st', sdb', pdb')"
      and st: "st = st'\<lparr>duration := t1 - t0\<rparr>"
      unfolding s0_def by (rule migrate_try_Inr)
    from cnt have tbl: "s_table sdb0 = s_table sdb" by (simp add: sqlite_count_Inr)
    then have tot: "totalEntries s0 = length (s_table sdb0)" by (simp add: s0_def)
    from migrate_loop_counts [OF loop bs tot] tbl st show ?thesis
      by (simp add: s0_def filter_by_timestamp)
  qed
qed

lemmas eval_defs =
  migrate_def migrate_try_def migrate_loop.simps migrateBatch_def validate_step_def
  validateEntry_def convertEntry_def parse_if_string_def text_of_def truthy_def
  sqlite_count_def sqlite_all_def sqlite_sample_def next_outcome_def by_timestamp_def
  createPostgreSQLTables_def pg_create_tables_def pg_send_def pg_on_table_def pg_upsert_def
  pg_count_def pg_select_by_id_def upsert_row_def insertBatch_def entry_params_def Let_def

lemma verifySampleEntries_caught:
  "isl (fst (verifySampleEntries_try sdb pdb)) \<Longrightarrow> \<not> fst (verifySampleEntries sdb pdb)"
  by (cases "verifySampleEntries_try sdb pdb" rule: prod_cases3)
     (auto simp: verifySampleEntries_def split: sum.splits)

lemma upsert_row_member: "r \<in> set (upsert_row rows r)"
  by (auto simp: upsert_row_def)

lemma upsert_row_same_id:
  "r' \<in> set (upsert_row rows r) \<Longrightarrow> p_id r' = p_id r \<Longrightarrow> r' = r"
  by (auto simp: upsert_row_def split: if_splits)

lemma upsert_row_other_id:
  "r' \<in> set (upsert_row rows r) \<Longrightarrow> p_id r' \<noteq> p_id r \<Longrightarrow> r' \<in> set rows"
  by (auto simp: upsert_row_def split: if_splits)

lemma entry_params_id: "entry_params entry = Inr row \<Longrightarrow> p_id row = e_id entry"
  by (auto simp: entry_params_def split: option.splits)

lemma pg_upsert_ok:
  assumes "has_schema db" and "fst (next_outcome (pg_outcomes db)) = None"
  shows "\<exists>db'. pg_upsert [row] db = (Inr (), db')
           \<and> memory_entries db' = upsert_row (memory_entries db) row"
  using assms by (simp add: pg_upsert_def pg_on_table_def pg_send_ok)

lemma query_cong:
  assumes "query_conditions q = query_conditions q'"
    and "truthy_num (q_limit q) = truthy_num (q_limit q')"
    and "truthy_num (q_offset q) = truthy_num (q_offset q')"
  shows "query rt q b = query rt q' b"
  unfolding query_def assms by (rule refl)

lemmas query_eval_defs =
  query_def query_conditions_def date_param_def truthy_num_def pg_select_where_def
  by_timestamp_desc_def rowToEntry_def reparse_def json_truthy_def jsonb_exists_def
  getAllEntries_def

lemma jsonb_exists_string_array:
  "jsonb_exists (JArr (map JStr ts)) t \<longleftrightarrow> t \<in> set ts"
  by (auto simp: jsonb_exists_def)

lemma rowToEntry_fields:
  "rowToEntry rt row = Inr entry \<Longrightarrow>
     e_id entry = p_id row \<and> e_agentId entry = p_agent_id row
     \<and> e_timestamp entry = Some (p_timestamp row)"
  by (auto simp: rowToEntry_def split: sum.splits)

lemma rows_to_entries_maps:
  "rows_to_entries rt rows = Inr entries \<Longrightarrow>
     map e_id entries = map p_id rows
     \<and> map e_agentId entries = map p_agent_id rows
     \<and> map e_timestamp entries = map (\<lambda>r. Some (p_timestamp r)) rows"
proof (induction rows arbitrary: entries)
  case Nil
  then show ?case by simp
next
  case (Cons row rest)
  from Cons.prems obtain entry es where
    e: "rowToEntry rt row = Inr entry" and es: "rows_to_entries rt rest = Inr es"
    and eq: "entries = entry # es"
    by (auto split: sum.splits)
  from Cons.IH [OF es] rowToEntry_fields [OF e] eq show ?case by simp
qed

lemma sorted_desc: "sorted_wrt (\<lambda>r r'. p_timestamp r' \<le> p_timestamp r) (by_timestamp_desc rows)"
proof -
  have "sorted (map (\<lambda>r. - p_timestamp r) (by_timestamp_desc rows))"
    by (simp add: by_timestamp_desc_def)
  then show ?thesis by (simp add: sorted_map)
qed

lemma mset_by_timestamp_desc: "mset (by_timestamp_desc rows) = mset rows"
  by (simp add: by_timestamp_desc_def)

lemma a1_xy_conditions:
  "query_conditions a1_xy = Inr [AgentIdEq ''a1'', TagsAny [''x'', ''y'']]"
  by (simp add: a1_xy_def empty_query_def query_conditions_def date_param_def truthy_def
        text_of_def)

lemma pg_on_table_rows:
  "pg_on_table stmt db = (oc, db') \<Longrightarrow> memory_entries db' = memory_entries db"
  by (auto simp: pg_on_table_def pg_send_def split: prod.splits option.splits if_splits)

lemma pg_select_where_all:
  assumes "pg_select_where rt conds None None db = (Inr rows, db')"
  shows "rows = by_timestamp_desc
                  (filter (\<lambda>r. \<forall>c \<in> set conds. eval_cond rt c r) (memory_entries db))"
proof -
  obtain oc db1 where t: "pg_on_table (SelectWhere conds None None) db = (oc, db1)"
    by (cases "pg_on_table (SelectWhere conds None None) db")
  from pg_on_table_rows [OF t] have "memory_entries db1 = memory_entries db" .
  with assms t show ?thesis
    by (cases oc) (simp_all add: pg_select_where_def Let_def)
qed

section \<open>The claims\<close>

subsection \<open>Batches of a run over 2500 rows\<close>

text \<open>
  C1. For a source table of 2500 rows that does not change and a batch size of 1000, a run of
  \<^verbatim>\<open>migrate\<close> (dry or live) that returns its statistics has read exactly three pages from the
  source, at offsets 0, 1000 and 2000, of 1000, 1000 and 500 rows (each page read is the batch
  handed to \<^verbatim>\<open>migrateBatch\<close>), and the statistics satisfy
  \<open>migratedEntries + skippedEntries + errors = totalEntries = 2500\<close>.
\<close>

theorem migrate_2500_by_1000:
  assumes db: "sqliteDb m = Some sdb" "pgPool m = Some pdb"
    and n: "length (s_table sdb) = 2500"
    and bs: "batchSize m = 1000"
    and run: "migrate rt t0 t1 dryRun m = (Inr st, m')"
  shows "(\<exists>sdb'. sqliteDb m' = Some sdb'
            \<and> s_log sdb' = s_log sdb @ [CountQuery 2500, PageQuery 1000 0 1000,
                 PageQuery 1000 1000 1000, PageQuery 1000 2000 500])
         \<and> totalEntries st = 2500
         \<and> migratedEntries st + skippedEntries st + errors st = totalEntries st"
proof -
  from run db obtain sdb' pdb' where
    t: "migrate_try rt t0 t1 dryRun (batchSize m) sdb pdb = (Inr st, sdb', pdb')"
    and m': "m' = m\<lparr>sqliteDb := Some sdb', pgPool := Some pdb'\<rparr>"
    by (rule migrate_Inr)
  from n have ne: "s_table sdb \<noteq> []" by auto
  define s0 where "s0 = \<lparr>totalEntries = length (s_table sdb), migratedEntries = 0,
        skippedEntries = 0, errors = 0, duration = 0\<rparr>"
  from t ne obtain sdb0 pdb0 st' where
    cnt: "sqlite_count sdb = (Inr (length (s_table sdb)), sdb0)"
    and loop: "migrate_loop rt dryRun (batchSize m) 0 s0 sdb0 pdb0 = (Inr st', sdb', pdb')"
    and st: "st = st'\<lparr>duration := t1 - t0\<rparr>"
    unfolding s0_def by (rule migrate_try_Inr)
  from cnt n have tbl0: "length (s_table sdb0) = 2500"
    and log0: "s_log sdb0 = s_log sdb @ [CountQuery 2500]"
    by (simp_all add: sqlite_count_Inr)
  have tot0: "totalEntries s0 = length (s_table sdb0)" using tbl0 n by (simp add: s0_def)
  have pos: "0 < (1000::nat)" by simp
  from loop bs have loop0: "migrate_loop rt dryRun 1000 0 s0 sdb0 pdb0 = (Inr st', sdb', pdb')"
    by simp
  from migrate_loop_counts [OF loop0 pos tot0] tbl0 n
  have sums: "totalEntries st' = 2500"
    "migratedEntries st' + skippedEntries st' + errors st' = 2500"
    by (simp_all add: s0_def)
  \<comment> \<open>first page\<close>
  have lt0: "0 < totalEntries s0" using tot0 tbl0 by simp
  from loop0 lt0 pos tot0 obtain s1 sdb1 pdb1 where
    tbl1: "s_table sdb1 = s_table sdb0"
    and log1: "s_log sdb1 = s_log sdb0 @ [PageQuery 1000 0 (min 1000 (length (s_table sdb0) - 0))]"
    and tot1: "totalEntries s1 = totalEntries s0"
    and loop1: "migrate_loop rt dryRun 1000 (0 + 1000) s1 sdb1 pdb1 = (Inr st', sdb', pdb')"
    by (rule migrate_loop_page)
  \<comment> \<open>second page\<close>
  have lt1: "0 + 1000 < totalEntries s1" using tot1 tot0 tbl0 by simp
  have tot1': "totalEntries s1 = length (s_table sdb1)" using tot1 tot0 tbl1 by simp
  from loop1 lt1 pos tot1' obtain s2 sdb2 pdb2 where
    tbl2: "s_table sdb2 = s_table sdb1"
    and log2: "s_log sdb2 = s_log sdb1
                 @ [PageQuery 1000 (0 + 1000) (min 1000 (length (s_table sdb1) - (0 + 1000)))]"
    and tot2: "totalEntries s2 = totalEntries s1"
    and loop2: "migrate_loop rt dryRun 1000 (0 + 1000 + 1000) s2 sdb2 pdb2 = (Inr st', sdb', pdb')"
    by (rule migrate_loop_page)
  \<comment> \<open>third page\<close>
  have lt2: "0 + 1000 + 1000 < totalEntries s2" using tot2 tot1 tot0 tbl0 by simp
  have tot2': "totalEntries s2 = length (s_table sdb2)" using tot2 tot1' tbl2 by simp
  from loop2 lt2 pos tot2' obtain s3 sdb3 pdb3 where
    tbl3: "s_table sdb3 = s_table sdb2"
    and log3: "s_log sdb3 = s_log sdb2
       @ [PageQuery 1000 (0 + 1000 + 1000) (min 1000 (length (s_table sdb2) - (0 + 1000 + 1000)))]"
    and tot3: "totalEntries s3 = totalEntries s2"
    and loop3: "migrate_loop rt dryRun 1000 (0 + 1000 + 1000 + 1000) s3 sdb3 pdb3
                  = (Inr st', sdb', pdb')"
    by (rule migrate_loop_page)
  \<comment> \<open>the loop ends at offset 3000\<close>
  have "\<not> 0 + 1000 + 1000 + 1000 < totalEntries s3"
    using tot3 tot2 tot1 tot0 tbl0 by simp
  with loop3 have "sdb' = sdb3" by (simp add: migrate_loop_done)
  with log0 log1 log2 log3 tbl0 tbl1 tbl2
  have "s_log sdb' = s_log sdb @ [CountQuery 2500, PageQuery 1000 0 1000,
                 PageQuery 1000 1000 1000, PageQuery 1000 2000 500]" by simp
  with m' st sums show ?thesis by simp
qed

theorem migrate_2500_by_1000_witness:
  "\<exists>st m'.
     migrate demo_rt 0 1 True
       \<lparr>sqliteDb = Some big_source, pgPool = Some empty_target,
        sqliteLoaded = True, batchSize = 1000\<rparr> = (Inr st, m')
     \<and> (\<exists>sdb'. sqliteDb m' = Some sdb'
            \<and> s_log sdb' = [CountQuery 2500, PageQuery 1000 0 1000,
                 PageQuery 1000 1000 1000, PageQuery 1000 2000 500])
     \<and> totalEntries st = 2500
     \<and> migratedEntries st + skippedEntries st + errors st = totalEntries st"
proof -
  let ?m = "\<lparr>sqliteDb = Some big_source, pgPool = Some empty_target,
        sqliteLoaded = True, batchSize = 1000\<rparr>"
  have db: "sqliteDb ?m = Some big_source" "pgPool ?m = Some empty_target" by simp_all
  have ff: "fault_free (s_outcomes big_source)"
    by (simp add: big_source_def fault_free_def)
  from migrate_returns [OF db ff, of True demo_rt 0 1]
  obtain st m' where run: "migrate demo_rt 0 1 True ?m = (Inr st, m')" by blast
  have n: "length (s_table big_source) = 2500" by (simp add: big_source_def)
  have bs: "batchSize ?m = 1000" by simp
  from migrate_2500_by_1000 [OF db n bs run] run show ?thesis
    by (simp add: big_source_def)
qed

subsection \<open>A dry run leaves the target alone\<close>

text \<open>
  C2. Whatever the source and the target hold, and whether the run returns or throws,
  \<^verbatim>\<open>migrate(true)\<close> leaves the target database as it was: the same rows, the same schema, no
  statement sent (so no DDL), and therefore the same answer of \<^verbatim>\<open>getAllEntries\<close> from a
  backend on that database.
\<close>

theorem migrate_dry_run_frame:
  "pgPool (snd (migrate rt t0 t1 True m)) = pgPool m
   \<and> getAllEntries rt (b\<lparr>pool := pgPool (snd (migrate rt t0 t1 True m))\<rparr>)
       = getAllEntries rt (b\<lparr>pool := pgPool m\<rparr>)"
proof -
  have "pgPool (snd (migrate rt t0 t1 True m)) = pgPool m"
  proof (cases "sqliteDb m")
    case None
    then show ?thesis by (simp add: migrate_def)
  next
    case (Some sdb)
    show ?thesis
    proof (cases "pgPool m")
      case None
      with Some show ?thesis by (simp add: migrate_def)
    next
      case (Some pdb)
      obtain r sdb' pdb' where t: "migrate_try rt t0 t1 True (batchSize m) sdb pdb = (r, sdb', pdb')"
        by (metis prod_cases3)
      then have "pdb' = pdb" by (rule migrate_try_dry_run_target)
      with t \<open>sqliteDb m = Some sdb\<close> Some show ?thesis
        by (cases r) (auto simp: migrate_def)
    qed
  qed
  then show ?thesis by simp
qed

theorem migrate_dry_run_frame_witness:
  "pgPool (snd (migrate demo_rt 0 1 True
       \<lparr>sqliteDb = Some small_source, pgPool = Some demo_target,
        sqliteLoaded = True, batchSize = 1\<rparr>)) = Some demo_target
   \<and> getAllEntries demo_rt
        \<lparr>pool = pgPool (snd (migrate demo_rt 0 1 True
           \<lparr>sqliteDb = Some small_source, pgPool = Some demo_target,
            sqliteLoaded = True, batchSize = 1\<rparr>)), initialized = True\<rparr>
       = getAllEntries demo_rt \<lparr>pool = Some demo_target, initialized = True\<rparr>"
  using migrate_dry_run_frame [of demo_rt 0 1
      "\<lparr>sqliteDb = Some small_source, pgPool = Some demo_target,
        sqliteLoaded = True, batchSize = 1\<rparr>" "\<lparr>pool = None, initialized = True\<rparr>"]
  by simp

subsection \<open>A batch whose write fails\<close>

text \<open>
  C3, as the code has it. In live mode, when the one \<^verbatim>\<open>insertBatch\<close> of a batch throws, the
  number of rows that survived conversion (the size of the batch minus its skipped rows) goes to
  \<^verbatim>\<open>errors\<close>, \<^verbatim>\<open>migratedEntries\<close> of the batch is 0 and no row of the target changes. The
  failure stays inside \<^verbatim>\<open>migrateBatch\<close>: a live run over a source that answers every
  statement, once the DDL has succeeded, returns its statistics whatever happens to the batch
  writes.
\<close>

theorem failed_batch_write:
  assumes "insertBatch (survivors rt batch) pdb = (Inl e, pdb1)"
  shows "migrateBatch rt batch False pdb
           = (\<lparr>batchMigrated = 0,
               batchSkipped = length batch - length (survivors rt batch),
               batchErrors = length (survivors rt batch)\<rparr>, pdb1)
         \<and> memory_entries pdb1 = memory_entries pdb
         \<and> (sqliteDb m = Some sdb \<and> pgPool m = Some pdb0 \<and> fault_free (s_outcomes sdb)
              \<and> fst (next_outcome (pg_outcomes pdb0)) = None
             \<longrightarrow> (\<exists>st m'. migrate rt t0 t1 False m = (Inr st, m')))"
proof -
  from assms have ne: "survivors rt batch \<noteq> []"
    and rows: "memory_entries pdb1 = memory_entries pdb"
    by (rule insertBatch_Inl)+
  have "length (filter (\<lambda>r. isl (convertEntry rt r)) batch)
          = length batch - length (survivors rt batch)"
    using sum_length_filter_compl' [of "\<lambda>r. isl (convertEntry rt r)" batch]
    by (simp add: length_survivors)
  with assms ne have "migrateBatch rt batch False pdb
           = (\<lparr>batchMigrated = 0,
               batchSkipped = length batch - length (survivors rt batch),
               batchErrors = length (survivors rt batch)\<rparr>, pdb1)"
    by (simp add: migrateBatch_live_unfold)
  moreover have "sqliteDb m = Some sdb \<and> pgPool m = Some pdb0 \<and> fault_free (s_outcomes sdb)
              \<and> fst (next_outcome (pg_outcomes pdb0)) = None
             \<longrightarrow> (\<exists>st m'. migrate rt t0 t1 False m = (Inr st, m'))"
    using migrate_returns [of m sdb pdb0 False rt t0 t1] by blast
  ultimately show ?thesis using rows by blast
qed

theorem failed_batch_write_witness:
  "migrateBatch demo_rt [demo_row, demo_row_no_content] False failing_target
     = (\<lparr>batchMigrated = 0, batchSkipped = 1, batchErrors = 1\<rparr>,
        failing_target\<lparr>pg_outcomes := [],
                        pg_log := [Upsert [demo_pg_row\<lparr>p_tags := JArr []\<rparr>]]\<rparr>)
   \<and> (\<exists>st m'.
         migrate demo_rt 0 1 False
           \<lparr>sqliteDb = Some small_source,
            pgPool = Some (failing_target
                       \<lparr>pg_outcomes := [None, Some (DriverError ''connection terminated'')]\<rparr>),
            sqliteLoaded = True, batchSize = 2\<rparr> = (Inr st, m'))"
proof -
  let ?pdb0 = "failing_target
                 \<lparr>pg_outcomes := [None, Some (DriverError ''connection terminated'')]\<rparr>"
  let ?m = "\<lparr>sqliteDb = Some small_source, pgPool = Some ?pdb0,
            sqliteLoaded = True, batchSize = 2\<rparr>"
  from failed_batch_write [OF demo_insert_fails, of ?m small_source ?pdb0 0 1]
  show ?thesis
    by (simp add: demo_survivors small_source_def fault_free_def next_outcome_def)
qed

text \<open>
  C3 as stated attributes the whole batch's row count to \<^verbatim>\<open>errors\<close>. On a batch of two rows,
  one of them without content, whose write fails, \<^verbatim>\<open>errors\<close> is 1 and not 2: the skipped row
  is not counted again.
\<close>

theorem failed_batch_write_counterexample:
  "fst (insertBatch (survivors demo_rt [demo_row, demo_row_no_content]) failing_target)
     = Inl (DriverError ''connection terminated'')
   \<and> batchErrors (fst (migrateBatch demo_rt [demo_row, demo_row_no_content] False failing_target))
       = 1
   \<and> batchErrors (fst (migrateBatch demo_rt [demo_row, demo_row_no_content] False failing_target))
       \<noteq> length [demo_row, demo_row_no_content]"
  unfolding migrateBatch_live_unfold demo_insert_fails by (simp add: demo_survivors)

subsection \<open>Exceptions during verification\<close>

text \<open>
  C4, as the code has it. On a migrator with both handles set, once the two count probes have
  answered, \<^verbatim>\<open>verifyMigration\<close> returns a result with \<open>match = (sqliteCount = postgresCount)\<close>,
  and \<^verbatim>\<open>sampleVerification\<close> is what \<^verbatim>\<open>verifySampleEntries\<close> returns: \<^verbatim>\<open>false\<close> whenever
  anything inside the sampling step throws. An exception of a count probe is outside that
  \<^verbatim>\<open>try\<close> and reaches the caller.
\<close>

theorem verifyMigration_after_counts:
  assumes "sqliteDb m = Some sdb" and "pgPool m = Some pdb"
    and "sqlite_count sdb = (Inr sc, sdb1)"
    and "pg_count pdb = (Inr pc, pdb1)"
  shows "\<exists>sv m'. verifyMigration m
            = (Inr \<lparr>sqliteCount = sc, postgresCount = pc, match = (sc = pc),
                    sampleVerification = sv\<rparr>, m')
          \<and> sv = fst (verifySampleEntries sdb1 pdb1)
          \<and> (isl (fst (verifySampleEntries_try sdb1 pdb1)) \<longrightarrow> sv = False)"
proof -
  obtain sv sdb2 pdb2 where v: "verifySampleEntries sdb1 pdb1 = (sv, sdb2, pdb2)"
    by (metis prod_cases3)
  with assms have "verifyMigration m
            = (Inr \<lparr>sqliteCount = sc, postgresCount = pc, match = (sc = pc),
                    sampleVerification = sv\<rparr>, m\<lparr>sqliteDb := Some sdb2, pgPool := Some pdb2\<rparr>)"
    by (simp add: verifyMigration_def)
  moreover from v have "sv = fst (verifySampleEntries sdb1 pdb1)" by simp
  moreover have "isl (fst (verifySampleEntries_try sdb1 pdb1)) \<longrightarrow> sv = False"
    using verifySampleEntries_caught [of sdb1 pdb1] v by simp
  ultimately show ?thesis by blast
qed

theorem verifyMigration_after_counts_witness:
  "fst (verifyMigration
          \<lparr>sqliteDb = Some one_row_source, pgPool = Some demo_target,
           sqliteLoaded = True, batchSize = 1000\<rparr>)
     = Inr \<lparr>sqliteCount = 1, postgresCount = 1, match = True, sampleVerification = False\<rparr>
   \<and> fst (verifySampleEntries_try
            (one_row_source\<lparr>s_outcomes := [Some (DriverError ''disk I/O error'')],
                             s_log := [CountQuery 1]\<rparr>)
            (demo_target\<lparr>pg_log := [CountEntries]\<rparr>))
     = Inl (DriverError ''disk I/O error'')"
proof -
  let ?m = "\<lparr>sqliteDb = Some one_row_source, pgPool = Some demo_target,
           sqliteLoaded = True, batchSize = 1000\<rparr>"
  let ?sdb1 = "one_row_source\<lparr>s_outcomes := [Some (DriverError ''disk I/O error'')],
                             s_log := [CountQuery 1]\<rparr>"
  let ?pdb1 = "demo_target\<lparr>pg_log := [CountEntries]\<rparr>"
  have db: "sqliteDb ?m = Some one_row_source" "pgPool ?m = Some demo_target" by simp_all
  have sc: "sqlite_count one_row_source = (Inr 1, ?sdb1)"
    by (simp add: one_row_source_def eval_defs)
  have pc: "pg_count demo_target = (Inr 1, ?pdb1)"
    by (simp add: eval_defs demo_target_def)
  have thrown: "fst (verifySampleEntries_try ?sdb1 ?pdb1) = Inl (DriverError ''disk I/O error'')"
    by (simp add: verifySampleEntries_try_def one_row_source_def eval_defs)
  from verifyMigration_after_counts [OF db sc pc] thrown show ?thesis by auto
qed

text \<open>
  C4 as stated says that \<^verbatim>\<open>verifyMigration\<close> never throws. With both handles set and a target
  that fails the count probe, the driver's exception comes out of \<^verbatim>\<open>verifyMigration\<close>.
\<close>

theorem verifyMigration_throws_counterexample:
  "fst (verifyMigration
          \<lparr>sqliteDb = Some small_source, pgPool = Some failing_target,
           sqliteLoaded = True, batchSize = 1000\<rparr>)
     = Inl (DriverError ''connection terminated'')"
  by (simp add: verifyMigration_def eval_defs small_source_def failing_target_def)

subsection \<open>Rows without content\<close>

text \<open>
  C5. In dry-run and in live mode alike, every row of a batch whose \<^verbatim>\<open>content\<close> is NULL or
  empty is counted in \<^verbatim>\<open>skippedEntries\<close>, and \<^verbatim>\<open>migratedEntries + errors\<close> counts only rows
  that have content; \<^verbatim>\<open>migrateBatch\<close> has no way to throw. The same holds for the statistics
  of a whole run with a positive batch size, and such a run returns its statistics whenever the
  source answers every statement and (in live mode) the DDL succeeds, whatever the rows hold.
\<close>

theorem missing_content_is_skipped:
  assumes db: "sqliteDb m = Some sdb" "pgPool m = Some pdb"
    and bs: "0 < batchSize m"
  shows "(length (filter (\<lambda>r. \<not> truthy (r_content r)) batch)
            \<le> batchSkipped (fst (migrateBatch rt batch dryRun pdb0))
          \<and> batchMigrated (fst (migrateBatch rt batch dryRun pdb0))
              + batchErrors (fst (migrateBatch rt batch dryRun pdb0))
            \<le> length (filter (\<lambda>r. truthy (r_content r)) batch))
       \<and> (migrate rt t0 t1 dryRun m = (Inr st, m') \<longrightarrow>
            length (filter (\<lambda>r. \<not> truthy (r_content r)) (s_table sdb)) \<le> skippedEntries st
            \<and> migratedEntries st + errors st
                \<le> length (filter (\<lambda>r. truthy (r_content r)) (s_table sdb)))
       \<and> (fault_free (s_outcomes sdb) \<and> (dryRun \<or> fst (next_outcome (pg_outcomes pdb)) = None)
            \<longrightarrow> (\<exists>st m'. migrate rt t0 t1 dryRun m = (Inr st, m')))"
proof -
  obtain bst pdb1 where mb: "migrateBatch rt batch dryRun pdb0 = (bst, pdb1)"
    by (cases "migrateBatch rt batch dryRun pdb0")
  from migrateBatch_skipped [OF mb] migrateBatch_present [OF mb] mb
  have batch_level: "length (filter (\<lambda>r. \<not> truthy (r_content r)) batch)
            \<le> batchSkipped (fst (migrateBatch rt batch dryRun pdb0))
          \<and> batchMigrated (fst (migrateBatch rt batch dryRun pdb0))
              + batchErrors (fst (migrateBatch rt batch dryRun pdb0))
            \<le> length (filter (\<lambda>r. truthy (r_content r)) batch)"
    by simp
  have run_level: "migrate rt t0 t1 dryRun m = (Inr st, m') \<longrightarrow>
            length (filter (\<lambda>r. \<not> truthy (r_content r)) (s_table sdb)) \<le> skippedEntries st
            \<and> migratedEntries st + errors st
                \<le> length (filter (\<lambda>r. truthy (r_content r)) (s_table sdb))"
    using migrate_counts_content [OF db bs] by blast
  have returns: "fault_free (s_outcomes sdb) \<and> (dryRun \<or> fst (next_outcome (pg_outcomes pdb)) = None)
            \<longrightarrow> (\<exists>st m'. migrate rt t0 t1 dryRun m = (Inr st, m'))"
    using migrate_returns [OF db] by blast
  from batch_level run_level returns show ?thesis by blast
qed

theorem missing_content_is_skipped_witness:
  "\<exists>st m'. migrate demo_rt 0 1 False
       \<lparr>sqliteDb = Some small_source, pgPool = Some empty_target,
        sqliteLoaded = True, batchSize = 1\<rparr> = (Inr st, m')
     \<and> 1 \<le> skippedEntries st \<and> migratedEntries st + errors st \<le> 1
     \<and> 1 \<le> batchSkipped (fst (migrateBatch demo_rt [demo_row_no_content] False empty_target))
     \<and> batchMigrated (fst (migrateBatch demo_rt [demo_row_no_content] False empty_target)) = 0
     \<and> batchErrors (fst (migrateBatch demo_rt [demo_row_no_content] False empty_target)) = 0"
proof -
  let ?m = "\<lparr>sqliteDb = Some small_source, pgPool = Some empty_target,
        sqliteLoaded = True, batchSize = 1\<rparr>"
  have db: "sqliteDb ?m = Some small_source" "pgPool ?m = Some empty_target"
    and bs: "0 < batchSize ?m" by simp_all
  have ok: "fault_free (s_outcomes small_source)
      \<and> (False \<or> fst (next_outcome (pg_outcomes empty_target)) = None)"
    by (simp add: small_source_def fault_free_def empty_target_def next_outcome_def)
  have missing: "length (filter (\<lambda>r. \<not> truthy (r_content r)) (s_table small_source)) = 1"
    and present: "length (filter (\<lambda>r. truthy (r_content r)) (s_table small_source)) = 1"
    and missing1: "length (filter (\<lambda>r. \<not> truthy (r_content r)) [demo_row_no_content]) = 1"
    and present1: "length (filter (\<lambda>r. truthy (r_content r)) [demo_row_no_content]) = 0"
    by (simp_all add: small_source_def demo_row_def demo_row_no_content_def truthy_def)
  from missing_content_is_skipped [OF db bs, where rt = demo_rt and dryRun = False
      and ?t0.0 = 0 and ?t1.0 = 1] ok
  obtain st m' where run: "migrate demo_rt 0 1 False ?m = (Inr st, m')" by blast
  from missing_content_is_skipped [OF db bs, where batch = "[demo_row_no_content]"
      and rt = demo_rt and dryRun = False and ?pdb0.0 = empty_target
      and ?t0.0 = 0 and ?t1.0 = 1 and st = st and m' = m']
    run missing present missing1 present1
  have "1 \<le> skippedEntries st \<and> migratedEntries st + errors st \<le> 1
     \<and> 1 \<le> batchSkipped (fst (migrateBatch demo_rt [demo_row_no_content] False empty_target))
     \<and> batchMigrated (fst (migrateBatch demo_rt [demo_row_no_content] False empty_target))
          + batchErrors (fst (migrateBatch demo_rt [demo_row_no_content] False empty_target)) \<le> 0"
    by simp
  with run show ?thesis by auto
qed

subsection \<open>What a failed run reports\<close>

text \<open>
  C6, as the code has it. The error \<^verbatim>\<open>migrate\<close> throws is either the not-initialized
  \<^verbatim>\<open>MemoryError\<close>, without details, or \<^verbatim>\<open>MemoryError('Migration failed', { error })\<close>, whose
  details hold the cause and nothing else: no \<^verbatim>\<open>MigrationStats\<close> is attached.
\<close>

theorem migrate_error_context:
  assumes "migrate rt t0 t1 dryRun m = (Inl e, m')"
  shows "attached_stats e = []
    \<and> (e = MemoryError ''Migrator not initialized'' []
       \<or> (\<exists>cause. e = MemoryError ''Migration failed'' [(''error'', Cause cause)]))"
proof (cases "sqliteDb m")
  case None
  with assms show ?thesis by (auto simp: migrate_def)
next
  case (Some sdb)
  show ?thesis
  proof (cases "pgPool m")
    case None
    with Some assms show ?thesis by (auto simp: migrate_def)
  next
    case (Some pdb)
    obtain r sdb' pdb' where
      t: "migrate_try rt t0 t1 dryRun (batchSize m) sdb pdb = (r, sdb', pdb')"
      by (metis prod_cases3)
    with assms \<open>sqliteDb m = Some sdb\<close> Some show ?thesis
      by (cases r) (auto simp: migrate_def)
  qed
qed

theorem migrate_error_context_witness:
  "migrate demo_rt 0 1 True
          \<lparr>sqliteDb = Some faulty_source, pgPool = Some empty_target,
           sqliteLoaded = True, batchSize = 1\<rparr>
     = (Inl (MemoryError ''Migration failed'' [(''error'', Cause (DriverError ''disk I/O error''))]),
        \<lparr>sqliteDb = Some (faulty_source\<lparr>s_outcomes := [],
             s_log := [CountQuery 2, PageQuery 1 0 1, FailedQuery]\<rparr>),
         pgPool = Some empty_target, sqliteLoaded = True, batchSize = 1\<rparr>)
   \<and> attached_stats
        (MemoryError ''Migration failed'' [(''error'', Cause (DriverError ''disk I/O error''))])
     = []"
proof -
  have run: "migrate demo_rt 0 1 True
          \<lparr>sqliteDb = Some faulty_source, pgPool = Some empty_target,
           sqliteLoaded = True, batchSize = 1\<rparr>
     = (Inl (MemoryError ''Migration failed'' [(''error'', Cause (DriverError ''disk I/O error''))]),
        \<lparr>sqliteDb = Some (faulty_source\<lparr>s_outcomes := [],
             s_log := [CountQuery 2, PageQuery 1 0 1, FailedQuery]\<rparr>),
         pgPool = Some empty_target, sqliteLoaded = True, batchSize = 1\<rparr>)"
    by (simp add: eval_defs faulty_source_def small_source_def empty_target_def demo_row_def
          demo_row_no_content_def demo_rt_def)
  from migrate_error_context [OF run] run show ?thesis by simp
qed

text \<open>
  C6 as stated says that the error carries the statistics accumulated so far. A dry run whose
  second page read fails has counted one migrated entry out of two when the exception is caught;
  the error thrown holds only the cause.
\<close>

theorem migrate_error_context_counterexample:
  "fst (migrate demo_rt 0 1 True
          \<lparr>sqliteDb = Some faulty_source, pgPool = Some empty_target,
           sqliteLoaded = True, batchSize = 1\<rparr>)
     = Inl (MemoryError ''Migration failed'' [(''error'', Cause (DriverError ''disk I/O error''))])
   \<and> fst (migrate_try demo_rt 0 1 True 1 faulty_source empty_target)
     = Inl (DriverError ''disk I/O error'',
            \<lparr>totalEntries = 2, migratedEntries = 1, skippedEntries = 0, errors = 0,
             duration = 0\<rparr>)
   \<and> attached_stats
        (MemoryError ''Migration failed'' [(''error'', Cause (DriverError ''disk I/O error''))])
     = []"
  by (simp add: eval_defs faulty_source_def small_source_def empty_target_def demo_row_def
        demo_row_no_content_def demo_rt_def)

subsection \<open>Update is store\<close>

text \<open>
  C7. For every id and entry, \<^verbatim>\<open>update(id, entry)\<close> gives the result and the backend state that
  \<^verbatim>\<open>store(entry)\<close> gives. It is an upsert that does not ask for a previous row: whenever the
  statement succeeds, whatever the table held, the table afterwards holds the entry's row, no
  other row with that id, and otherwise only rows it held before.
\<close>

theorem update_is_store:
  "update i entry b = store entry b
   \<and> (pool b = Some db \<and> has_schema db \<and> fst (next_outcome (pg_outcomes db)) = None
        \<and> entry_params entry = Inr row
      \<longrightarrow> (\<exists>db'. update i entry b = (Inr (), b\<lparr>pool := Some db'\<rparr>)
              \<and> row \<in> set (memory_entries db')
              \<and> (\<forall>r \<in> set (memory_entries db'). p_id r = e_id entry \<longrightarrow> r = row)
              \<and> (\<forall>r \<in> set (memory_entries db'). p_id r \<noteq> e_id entry
                    \<longrightarrow> r \<in> set (memory_entries db))))"
proof -
  have same: "update i entry b = store entry b" by (simp add: update_def)
  have upsert: "\<exists>db'. update i entry b = (Inr (), b\<lparr>pool := Some db'\<rparr>)
              \<and> row \<in> set (memory_entries db')
              \<and> (\<forall>r \<in> set (memory_entries db'). p_id r = e_id entry \<longrightarrow> r = row)
              \<and> (\<forall>r \<in> set (memory_entries db'). p_id r \<noteq> e_id entry
                    \<longrightarrow> r \<in> set (memory_entries db))"
    if h: "pool b = Some db" "has_schema db" "fst (next_outcome (pg_outcomes db)) = None"
      "entry_params entry = Inr row"
  proof -
    from pg_upsert_ok [OF h(2,3)] obtain db' where
      up: "pg_upsert [row] db = (Inr (), db')"
      and rows: "memory_entries db' = upsert_row (memory_entries db) row" by blast
    from h(1,4) up have "update i entry b = (Inr (), b\<lparr>pool := Some db'\<rparr>)"
      by (simp add: update_def store_def)
    moreover have "row \<in> set (memory_entries db')"
      unfolding rows by (rule upsert_row_member)
    moreover have "\<forall>r \<in> set (memory_entries db'). p_id r = e_id entry \<longrightarrow> r = row"
      unfolding rows using entry_params_id [OF h(4)] by (auto dest: upsert_row_same_id)
    moreover have "\<forall>r \<in> set (memory_entries db'). p_id r \<noteq> e_id entry
                    \<longrightarrow> r \<in> set (memory_entries db)"
      unfolding rows using entry_params_id [OF h(4)] by (auto dest: upsert_row_other_id)
    ultimately show ?thesis by blast
  qed
  from same upsert show ?thesis by blast
qed

theorem update_is_store_witness:
  "update ''some-other-id'' demo_entry \<lparr>pool = Some empty_target, initialized = True\<rparr>
     = store demo_entry \<lparr>pool = Some empty_target, initialized = True\<rparr>
   \<and> update ''some-other-id'' demo_entry \<lparr>pool = Some empty_target, initialized = True\<rparr>
     = (Inr (), \<lparr>pool = Some (empty_target\<lparr>memory_entries := [demo_pg_row],
                    pg_log := [Upsert [demo_pg_row]]\<rparr>), initialized = True\<rparr>)"
proof -
  have run: "store demo_entry \<lparr>pool = Some empty_target, initialized = True\<rparr>
     = (Inr (), \<lparr>pool = Some (empty_target\<lparr>memory_entries := [demo_pg_row],
                    pg_log := [Upsert [demo_pg_row]]\<rparr>), initialized = True\<rparr>)"
    by (simp add: store_def demo_entry_def eval_defs empty_target_def demo_pg_row_def)
  from update_is_store [of "''some-other-id''" demo_entry
      "\<lparr>pool = Some empty_target, initialized = True\<rparr>" empty_target demo_pg_row] run
  show ?thesis by simp
qed

subsection \<open>Filtering by agent and tags\<close>

text \<open>
  C8. When \<^verbatim>\<open>query({agentId: "a1", tags: ["x","y"]})\<close> returns, the entries returned are the
  conversions of exactly the rows of the table whose \<^verbatim>\<open>agent_id\<close> is \<^verbatim>\<open>a1\<close> and whose tags
  contain \<^verbatim>\<open>x\<close> or \<^verbatim>\<open>y\<close> (each such row once, no other row), in descending order of
  timestamp; every entry returned has \<^verbatim>\<open>agentId\<close> \<^verbatim>\<open>a1\<close>. For tags stored as an array of
  strings, containing a tag is membership in that array (\<open>jsonb_exists_string_array\<close>).
\<close>

theorem query_agent_and_tags:
  assumes db: "pool b = Some db"
    and run: "query rt a1_xy b = (Inr entries, b')"
  shows "\<exists>rows. rows_to_entries rt rows = Inr entries
           \<and> mset rows
               = filter_mset (\<lambda>r. p_agent_id r = ''a1''
                                 \<and> (jsonb_exists (p_tags r) ''x'' \<or> jsonb_exists (p_tags r) ''y''))
                   (mset (memory_entries db))
           \<and> sorted_wrt (\<lambda>r r'. p_timestamp r' \<le> p_timestamp r) rows
           \<and> map e_id entries = map p_id rows
           \<and> list_all (\<lambda>e. e_agentId e = ''a1'') entries
           \<and> sorted_wrt (\<lambda>e e'. e_timestamp e' \<le> e_timestamp e) entries"
proof -
  let ?conds = "[AgentIdEq ''a1'', TagsAny [''x'', ''y'']]"
  let ?P = "\<lambda>r. p_agent_id r = ''a1''
                \<and> (jsonb_exists (p_tags r) ''x'' \<or> jsonb_exists (p_tags r) ''y'')"
  have lim: "truthy_num (q_limit a1_xy) = None" "truthy_num (q_offset a1_xy) = None"
    by (simp_all add: a1_xy_def empty_query_def truthy_num_def)
  obtain r db1 where sel: "pg_select_where rt ?conds None None db = (r, db1)"
    by (cases "pg_select_where rt ?conds None None db")
  from run db sel obtain rows where r: "r = Inr rows"
    by (cases r) (simp_all add: query_def a1_xy_conditions lim)
  from run db sel r have conv: "rows_to_entries rt rows = Inr entries"
    by (cases "rows_to_entries rt rows") (simp_all add: query_def a1_xy_conditions lim)
  have P: "(\<forall>c \<in> set ?conds. eval_cond rt c row) = ?P row" for row
    by simp
  from sel r have rows: "rows = by_timestamp_desc (filter ?P (memory_entries db))"
    using pg_select_where_all [of rt ?conds db rows db1] by (simp only: P)
  then have m: "mset rows = filter_mset ?P (mset (memory_entries db))"
    by (simp add: mset_by_timestamp_desc)
  from rows have s: "sorted_wrt (\<lambda>r r'. p_timestamp r' \<le> p_timestamp r) rows"
    by (simp add: sorted_desc)
  from rows_to_entries_maps [OF conv]
  have ids: "map e_id entries = map p_id rows"
    and agents: "map e_agentId entries = map p_agent_id rows"
    and times: "map e_timestamp entries = map (\<lambda>r. Some (p_timestamp r)) rows"
    by simp_all
  have "\<forall>a \<in> set (map p_agent_id rows). a = ''a1''"
    unfolding rows by (auto simp: by_timestamp_desc_def)
  with agents have "\<forall>a \<in> set (map e_agentId entries). a = ''a1''" by simp
  then have a: "list_all (\<lambda>e. e_agentId e = ''a1'') entries"
    by (simp add: list_all_iff)
  have "sorted_wrt (\<lambda>t t'. t' \<le> t) (map (\<lambda>r. Some (p_timestamp r)) rows)"
    using s by (simp add: sorted_wrt_map)
  with times have "sorted_wrt (\<lambda>t t'. t' \<le> t) (map e_timestamp entries)" by simp
  then have e: "sorted_wrt (\<lambda>e e'. e_timestamp e' \<le> e_timestamp e) entries"
    by (simp add: sorted_wrt_map)
  from conv m s ids a e show ?thesis by blast
qed

theorem query_agent_and_tags_witness:
  "query demo_rt a1_xy \<lparr>pool = Some tagged_target, initialized = True\<rparr>
     = (Inr [demo_entry\<lparr>e_id := ''e4'', e_tags := JArr [JStr ''q'', JStr ''y''],
                         e_timestamp := Some 1704067200003\<rparr>,
             demo_entry],
        \<lparr>pool = Some (tagged_target\<lparr>pg_log :=
                 [SelectWhere [AgentIdEq ''a1'', TagsAny [''x'', ''y'']] None None]\<rparr>),
         initialized = True\<rparr>)
   \<and> list_all (\<lambda>e. e_agentId e = ''a1'')
        [demo_entry\<lparr>e_id := ''e4'', e_tags := JArr [JStr ''q'', JStr ''y''],
                     e_timestamp := Some 1704067200003\<rparr>, demo_entry]
   \<and> sorted_wrt (\<lambda>e e'. e_timestamp e' \<le> e_timestamp e)
        [demo_entry\<lparr>e_id := ''e4'', e_tags := JArr [JStr ''q'', JStr ''y''],
                     e_timestamp := Some 1704067200003\<rparr>, demo_entry]"
proof -
  let ?b = "\<lparr>pool = Some tagged_target, initialized = True\<rparr>"
  have db: "pool ?b = Some tagged_target" by simp
  have run: "query demo_rt a1_xy ?b
     = (Inr [demo_entry\<lparr>e_id := ''e4'', e_tags := JArr [JStr ''q'', JStr ''y''],
                         e_timestamp := Some 1704067200003\<rparr>,
             demo_entry],
        \<lparr>pool = Some (tagged_target\<lparr>pg_log :=
                 [SelectWhere [AgentIdEq ''a1'', TagsAny [''x'', ''y'']] None None]\<rparr>),
         initialized = True\<rparr>)"
    by (simp add: a1_xy_def text_of_def query_eval_defs eval_defs empty_query_def
          tagged_target_def demo_pg_row_def demo_entry_def demo_rt_def)
  from query_agent_and_tags [OF db run] run show ?thesis by blast
qed

subsection \<open>Migrating without handles\<close>

text \<open>
  C9, as the code has it. When the SQLite handle or the pool is unset, \<^verbatim>\<open>migrate\<close> throws the
  not-initialized \<^verbatim>\<open>MemoryError\<close> and leaves the migrator as it was: nothing is read and nothing
  is written. That is the case of a migrator fresh from the constructor, of one after
  \<^verbatim>\<open>shutdown\<close>, and of a fresh one whose \<^verbatim>\<open>initialize\<close> failed because the SQLite module
  is not available or the database file could not be opened.
\<close>

theorem migrate_not_initialized:
  assumes "sqliteDb m = None \<or> pgPool m = None"
  shows "migrate rt t0 t1 dryRun m = (Inl (MemoryError ''Migrator not initialized'' []), m)
       \<and> migrate rt t0 t1 dryRun (new_migrator bs)
           = (Inl (MemoryError ''Migrator not initialized'' []), new_migrator bs)
       \<and> migrate rt t0 t1 dryRun (shutdown m0)
           = (Inl (MemoryError ''Migrator not initialized'' []), shutdown m0)
       \<and> (\<not> sqlite_available w \<or> isl (sqlite_file w) \<longrightarrow>
            migrate rt t0 t1 dryRun (snd (initialize w (new_migrator bs)))
              = (Inl (MemoryError ''Migrator not initialized'' []),
                 snd (initialize w (new_migrator bs))))"
proof -
  have unset: "migrate rt t0 t1 dryRun x = (Inl (MemoryError ''Migrator not initialized'' []), x)"
    if "sqliteDb x = None \<or> pgPool x = None" for x
    using that by (cases "sqliteDb x") (auto simp: migrate_def split: option.splits)
  have early: "sqliteDb (snd (initialize w (new_migrator bs))) = None"
    if "\<not> sqlite_available w \<or> isl (sqlite_file w)"
    using that
    by (cases "sqlite_file w")
       (auto simp: initialize_def initialize_try_def new_migrator_def Let_def)
  have "migrate rt t0 t1 dryRun m = (Inl (MemoryError ''Migrator not initialized'' []), m)"
    using assms by (rule unset)
  moreover have "migrate rt t0 t1 dryRun (new_migrator bs)
           = (Inl (MemoryError ''Migrator not initialized'' []), new_migrator bs)"
    by (rule unset) (simp add: new_migrator_def)
  moreover have "migrate rt t0 t1 dryRun (shutdown m0)
           = (Inl (MemoryError ''Migrator not initialized'' []), shutdown m0)"
    by (rule unset) (simp add: shutdown_def)
  moreover have "\<not> sqlite_available w \<or> isl (sqlite_file w) \<longrightarrow>
            migrate rt t0 t1 dryRun (snd (initialize w (new_migrator bs)))
              = (Inl (MemoryError ''Migrator not initialized'' []),
                 snd (initialize w (new_migrator bs)))"
    using early unset by blast
  ultimately show ?thesis by blast
qed

theorem migrate_not_initialized_witness:
  "migrate demo_rt 0 1 False (new_migrator 1000)
     = (Inl (MemoryError ''Migrator not initialized'' []), new_migrator 1000)
   \<and> sqliteDb (new_migrator 1000) = None"
  using migrate_not_initialized [of "new_migrator 1000" demo_rt 0 1 False 1000
      "new_migrator 1000" refusing_world]
  by (simp add: new_migrator_def)

text \<open>
  C9 as stated covers every migrator on which \<^verbatim>\<open>initialize\<close> has not completed. When
  \<^verbatim>\<open>initialize\<close> fails at the connection test, both handles are already assigned; a following
  \<^verbatim>\<open>migrate(true)\<close> reads the source and returns statistics.
\<close>

theorem migrate_not_initialized_counterexample:
  "fst (initialize refusing_world (new_migrator 1000))
     = Inl (MemoryError ''Failed to initialize migrator''
              [(''error'', Cause (DriverError ''connection terminated''))])
   \<and> migrate demo_rt 0 1 True (snd (initialize refusing_world (new_migrator 1000)))
     = (Inr \<lparr>totalEntries = 2, migratedEntries = 1, skippedEntries = 1, errors = 0,
             duration = 1\<rparr>,
        \<lparr>sqliteDb = Some (small_source\<lparr>s_log :=
             [CountQuery 2, PageQuery 1000 0 2]\<rparr>),
         pgPool = Some (failing_target\<lparr>pg_outcomes := [], pg_log := [Connect]\<rparr>),
         sqliteLoaded = True, batchSize = 1000\<rparr>)"
  by (simp add: initialize_def initialize_try_def new_migrator_def refusing_world_def eval_defs
        small_source_def failing_target_def demo_row_def demo_row_no_content_def demo_rt_def)

subsection \<open>Falsy filter fields\<close>

text \<open>
  C10. In \<^verbatim>\<open>query\<close>, an empty string for \<^verbatim>\<open>agentId\<close>, \<^verbatim>\<open>sessionId\<close>, \<^verbatim>\<open>type\<close>,
  \<^verbatim>\<open>search\<close> or \<^verbatim>\<open>namespace\<close> gives the result and state of the query without that field,
  \<^verbatim>\<open>limit = 0\<close> those of the query without limit, and \<^verbatim>\<open>offset = 0\<close> those of the query
  without offset; so no query can select on the empty string.
\<close>

theorem falsy_filter_fields_are_absent:
  "query rt (q\<lparr>q_agentId := Some ''''\<rparr>) b = query rt (q\<lparr>q_agentId := None\<rparr>) b
   \<and> query rt (q\<lparr>q_sessionId := Some ''''\<rparr>) b = query rt (q\<lparr>q_sessionId := None\<rparr>) b
   \<and> query rt (q\<lparr>q_type := Some ''''\<rparr>) b = query rt (q\<lparr>q_type := None\<rparr>) b
   \<and> query rt (q\<lparr>q_search := Some ''''\<rparr>) b = query rt (q\<lparr>q_search := None\<rparr>) b
   \<and> query rt (q\<lparr>q_namespace := Some ''''\<rparr>) b = query rt (q\<lparr>q_namespace := None\<rparr>) b
   \<and> query rt (q\<lparr>q_limit := Some 0\<rparr>) b = query rt (q\<lparr>q_limit := None\<rparr>) b
   \<and> query rt (q\<lparr>q_offset := Some 0\<rparr>) b = query rt (q\<lparr>q_offset := None\<rparr>) b"
proof (intro conjI)
  show "query rt (q\<lparr>q_agentId := Some ''''\<rparr>) b = query rt (q\<lparr>q_agentId := None\<rparr>) b"
    by (rule query_cong) (simp_all add: query_conditions_def truthy_def cong: sum.case_cong)
  show "query rt (q\<lparr>q_sessionId := Some ''''\<rparr>) b = query rt (q\<lparr>q_sessionId := None\<rparr>) b"
    by (rule query_cong) (simp_all add: query_conditions_def truthy_def cong: sum.case_cong)
  show "query rt (q\<lparr>q_type := Some ''''\<rparr>) b = query rt (q\<lparr>q_type := None\<rparr>) b"
    by (rule query_cong) (simp_all add: query_conditions_def truthy_def cong: sum.case_cong)
  show "query rt (q\<lparr>q_search := Some ''''\<rparr>) b = query rt (q\<lparr>q_search := None\<rparr>) b"
    by (rule query_cong) (simp_all add: query_conditions_def truthy_def cong: sum.case_cong)
  show "query rt (q\<lparr>q_namespace := Some ''''\<rparr>) b = query rt (q\<lparr>q_namespace := None\<rparr>) b"
    by (rule query_cong) (simp_all add: query_conditions_def truthy_def cong: sum.case_cong)
  show "query rt (q\<lparr>q_limit := Some 0\<rparr>) b = query rt (q\<lparr>q_limit := None\<rparr>) b"
    by (rule query_cong) (simp_all add: query_conditions_def truthy_num_def cong: sum.case_cong)
  show "query rt (q\<lparr>q_offset := Some 0\<rparr>) b = query rt (q\<lparr>q_offset := None\<rparr>) b"
    by (rule query_cong) (simp_all add: query_conditions_def truthy_num_def cong: sum.case_cong)
qed

theorem falsy_filter_fields_are_absent_witness:
  "query demo_rt (empty_query\<lparr>q_agentId := Some ''''\<rparr>)
       \<lparr>pool = Some demo_target, initialized = True\<rparr>
     = query demo_rt empty_query \<lparr>pool = Some demo_target, initialized = True\<rparr>
   \<and> fst (query demo_rt (empty_query\<lparr>q_limit := Some 0\<rparr>)
            \<lparr>pool = Some demo_target, initialized = True\<rparr>) = Inr [demo_entry]"
proof -
  have none: "empty_query\<lparr>q_agentId := None\<rparr> = empty_query"
    "empty_query\<lparr>q_limit := None\<rparr> = empty_query"
    by (simp_all add: empty_query_def)
  have all: "fst (query demo_rt empty_query \<lparr>pool = Some demo_target, initialized = True\<rparr>)
      = Inr [demo_entry]"
    by (simp add: query_eval_defs eval_defs empty_query_def demo_target_def demo_pg_row_def
          demo_entry_def demo_rt_def)
  from falsy_filter_fields_are_absent [of demo_rt empty_query
      "\<lparr>pool = Some demo_target, initialized = True\<rparr>"] none all
  show ?thesis by simp
qed

end
